theory Spec2Isabelle
  imports Main "HOL-Library.Sublist" "HOL-Library.Multiset"
begin

section \<open>Python strings\<close>

text \<open>
  A Python \<open>str\<close> is a sequence of Unicode code points, modelled as a list of naturals.
  String constants of the source are written as Isabelle literals and converted by \<open>py\<close>
  (all constants of the source are ASCII).
\<close>

type_synonym pystr = "nat list"

definition py :: "string \<Rightarrow> pystr" where
  "py s = map of_char s"

text \<open>
  \<open>str.lower()\<close>: the ASCII letters \<open>A\<close>..\<open>Z\<close> map to \<open>a\<close>..\<open>z\<close>, every other ASCII code
  point is unchanged. The lowercase mapping of a code point outside ASCII comes from the
  Unicode tables of the interpreter; it is the parameter \<open>ul\<close> (it may yield several code
  points). The context rule for a final capital sigma is not modelled.
\<close>

definition lower_cp :: "(nat \<Rightarrow> pystr) \<Rightarrow> nat \<Rightarrow> pystr" where
  "lower_cp ul c = (if 65 \<le> c \<and> c \<le> 90 then [c + 32] else if c < 128 then [c] else ul c)"

definition lower :: "(nat \<Rightarrow> pystr) \<Rightarrow> pystr \<Rightarrow> pystr" where
  "lower ul s = concat (map (lower_cp ul) s)"

text \<open>
  \<open>s.split(sep)\<close> for a one-character separator: never empty, \<open>''.split('/') == ['']\<close>.
  The recursive call is made once and its result taken apart; it is never the empty list
  (\<open>split_not_Nil\<close>), so the first branch of the \<open>case\<close> is never taken.
\<close>

fun split :: "nat \<Rightarrow> pystr \<Rightarrow> pystr list" where
  "split sep [] = [[]]"
| "split sep (c # cs) =
     (case split sep cs of
        [] \<Rightarrow> [[]]
      | w # ws \<Rightarrow> if c = sep then [] # w # ws else (c # w) # ws)"

definition endswith :: "pystr \<Rightarrow> pystr \<Rightarrow> bool" where
  "endswith s suf = (length suf \<le> length s \<and> drop (length s - length suf) s = suf)"

text \<open>\<open>sub in s\<close> on two strings is the substring test.\<close>

definition str_contains :: "pystr \<Rightarrow> pystr \<Rightarrow> bool" where
  "str_contains s sub = sublist sub s"

text \<open>
  \<open>\s\<close> in a \<open>str\<close> pattern and \<open>str.strip()\<close> both use the interpreter's Unicode whitespace
  test: U+0009..U+000D, U+001C..U+001F, U+0020, U+0085, U+00A0, U+1680, U+2000..U+200A,
  U+2028, U+2029, U+202F, U+205F, U+3000.
\<close>

definition isspace :: "nat \<Rightarrow> bool" where
  "isspace c = ((9 \<le> c \<and> c \<le> 13) \<or> (28 \<le> c \<and> c \<le> 32) \<or> c = 133 \<or> c = 160 \<or> c = 5760
     \<or> (8192 \<le> c \<and> c \<le> 8202) \<or> c = 8232 \<or> c = 8233 \<or> c = 8239 \<or> c = 8287 \<or> c = 12288)"

text \<open>The character class \<open>[\x00-\x1F\x7F-\x9F]\<close>: the control characters (category Cc).\<close>

definition is_control :: "nat \<Rightarrow> bool" where
  "is_control c = (c \<le> 31 \<or> (127 \<le> c \<and> c \<le> 159))"

definition strip :: "pystr \<Rightarrow> pystr" where
  "strip s = rev (dropWhile isspace (rev (dropWhile isspace s)))"

text \<open>\<open>re.sub(r'\s+', ' ', text)\<close>: every maximal run of whitespace becomes one space.\<close>

function sub_ws :: "pystr \<Rightarrow> pystr" where
  "sub_ws [] = []"
| "sub_ws (c # cs) =
     (if isspace c then 32 # sub_ws (dropWhile isspace cs) else c # sub_ws cs)"
  by pat_completeness auto
termination
  by (relation "measure length") (auto simp: length_dropWhile_le less_Suc_eq_le)

section \<open>Sanitizer\<close>

definition clean_input :: "pystr \<Rightarrow> pystr" where
  "clean_input text =
     (let text = filter (\<lambda>c. \<not> is_control c) text;
          text = strip (sub_ws text)
      in text)"

text \<open>
  For the statement of what the sanitizer returns: the words of a text are its maximal
  runs of characters that are not whitespace (what \<open>text.split()\<close> gives), and
  \<open>join_space\<close> puts one space between consecutive words (\<open>' '.join(...)\<close>).
\<close>

function split_whitespace :: "pystr \<Rightarrow> pystr list" where
  "split_whitespace [] = []"
| "split_whitespace (c # cs) =
     (if isspace c then split_whitespace cs
      else (c # takeWhile (\<lambda>x. \<not> isspace x) cs)
             # split_whitespace (dropWhile (\<lambda>x. \<not> isspace x) cs))"
  by pat_completeness auto
termination
  by (relation "measure length") (auto simp: length_dropWhile_le less_Suc_eq_le)

fun join_space :: "pystr list \<Rightarrow> pystr" where
  "join_space [] = []"
| "join_space [w] = w"
| "join_space (w # v # ws) = w @ 32 # join_space (v # ws)"

text \<open>
  A string is single-spaced when every whitespace character in it is the space U+0020
  and is not followed by another whitespace character.
\<close>

fun single_spaced :: "pystr \<Rightarrow> bool" where
  "single_spaced [] = True"
| "single_spaced [c] = (isspace c \<longrightarrow> c = 32)"
| "single_spaced (a # b # cs) = ((isspace a \<longrightarrow> a = 32 \<and> \<not> isspace b) \<and> single_spaced (b # cs))"

section \<open>Path Filter\<close>

definition SUPPORTED_FILE_EXTENSIONS :: "pystr list" where
  "SUPPORTED_FILE_EXTENSIONS = map py
     [''.js'', ''.jsx'', ''.ts'', ''.tsx'',
      ''.html'', ''.htm'',
      ''.css'', ''.scss'', ''.sass'',
      ''.java'', ''.cs'',
      ''.py'', ''.sql'',
      ''.c'', ''.cpp'', ''.h'', ''.hpp'',
      ''.vb'', ''.aspx'', ''.cshtml'', ''.vbhtml'']"

definition FORBIDDEN_FOLDERS :: "pystr list" where
  "FORBIDDEN_FOLDERS = map py
     [''node_modules'',
      ''.next'',
      ''__pycache__'',
      ''venv'', ''env'',
      ''bin'', ''obj'',
      ''build'', ''dist'',
      ''target'',
      ''vendor'',
      ''.vs'', ''.vscode'',
      ''packages'',
      ''bower_components'',
      ''jspm_packages'',
      ''tmp'', ''temp'',
      ''logs'',
      ''.sass-cache'',
      ''.tsbuildinfo'',
      ''out'',
      ''Debug'', ''Release'',
      ''.idea'',
      ''.gradle'',
      ''migrations'']"

definition should_process_path :: "(nat \<Rightarrow> pystr) \<Rightarrow> pystr \<Rightarrow> bool" where
  "should_process_path ul path =
     (let path_parts = split 47 (lower ul path) in
      if list_ex (\<lambda>folder. lower ul folder \<in> set path_parts) FORBIDDEN_FOLDERS then False
      else list_ex (\<lambda>ext. endswith (lower ul path) (lower ul ext)) SUPPORTED_FILE_EXTENSIONS)"

text \<open>The identity table: no code point outside ASCII has a lowercase form.\<close>

definition ul_none :: "nat \<Rightarrow> pystr" where
  "ul_none c = [c]"

section \<open>Exceptions, JSON values, the environment\<close>

text \<open>
  An exception other than \<open>HTTPException\<close>: a \<open>GithubException\<close> with its \<open>status\<close> and
  \<open>str(e)\<close>, or an exception of any other class with its \<open>str(e)\<close>. These are the
  exceptions the libraries raise; the program itself raises \<open>HTTPException\<close> and, from a
  list or dictionary access, \<open>IndexError\<close>, \<open>KeyError\<close> and \<open>TypeError\<close>.
\<close>

datatype py_exn = GithubException int pystr | Exception pystr

datatype exn = HTTPException int pystr | Other py_exn

fun str_exn :: "py_exn \<Rightarrow> pystr" where
  "str_exn (GithubException s m) = m"
| "str_exn (Exception m) = m"

text \<open>
  The value \<open>json.loads\<close> returns. A float is kept as its text: no claim computes with it.
\<close>

datatype json = JNull | JBool bool | JInt int | JFloat pystr | JStr pystr
  | JArr "json list" | JObj "(pystr \<times> json) list"

text \<open>
  The hosting service as the client library shows it. An entry is what
  \<open>repository.get_contents\<close> lists: its \<open>type\<close> is \<open>"dir"\<close> or not, it has a \<open>path\<close>. An entry
  that is not a directory carries what reading its attribute \<open>content\<close> does: the client
  library fetches the content of a listed entry from the hosting service when it is first
  read, so reading it raises (\<open>Inl\<close>) or gives the stored content (\<open>Inr\<close>). A directory
  carries what \<open>repository.get_contents(path)\<close> does when called on it: it returns a list
  of entries (\<open>Dir\<close>) or raises (\<open>DirRaises\<close>).
\<close>

datatype 'c ContentFile =
    File pystr "py_exn + 'c"
  | Dir pystr "'c ContentFile list"
  | DirRaises pystr py_exn

text \<open>The input variables given to \<open>chain.run\<close> by the two prompts.\<close>

datatype chain_input =
    AnalyzeCode pystr pystr
  | GenerateQuestions json pystr int

text \<open>What the program does to the outside, in order.\<close>

datatype event =
    GetRepo pystr
  | GetContents pystr
  | Print pystr
  | ChainRun chain_input

record AnalysisRequest =
  github_url :: pystr
  curriculum :: pystr
  question_count :: int

record AnalysisResponse =
  alignment_score :: int
  alignment_summary :: pystr
  questions_list :: "(pystr \<times> pystr) list list"

text \<open>
  The libraries and services the program calls, as parameters:
  \<^item> \<open>unicode_lower\<close>: the lowercase table of \<open>str.lower\<close> outside ASCII;
  \<^item> \<open>decode_content\<close>: \<open>base64.b64decode(c).decode('utf-8')\<close> on a content \<open>c\<close> that was
    read: the text, or \<open>Inl (str e)\<close> when the decoding raises;
  \<^item> \<open>get_repo\<close>: \<open>Github(token).get_repo(full_name)\<close>: it raises, or gives a repository,
    which is what \<open>repository.get_contents("")\<close> does: it raises or lists the root;
  \<^item> \<open>chain_run\<close>: \<open>LLMChain.run\<close> on the input variables: it raises or returns text;
  \<^item> \<open>json_loads\<close>: \<open>json.loads\<close>: the value, or \<open>Inl (str e)\<close> when it raises;
  \<^item> \<open>subscript_error\<close>: \<open>str(e)\<close> of the \<open>TypeError\<close> of \<open>x[key]\<close> when \<open>x\<close> is not a dict;
  \<^item> \<open>validate_response\<close>: the constructor of the response model (field validation and
    coercion): the response, or \<open>Inl (str e)\<close> when validation raises;
  \<^item> \<open>GITHUB_ACCESS_TOKEN\<close>: the token read from the configuration file.
\<close>

record 'c env =
  unicode_lower :: "nat \<Rightarrow> pystr"
  decode_content :: "'c \<Rightarrow> pystr + pystr"
  get_repo :: "pystr \<Rightarrow> pystr \<Rightarrow> py_exn + (py_exn + 'c ContentFile list)"
  chain_run :: "chain_input \<Rightarrow> py_exn + pystr"
  json_loads :: "pystr \<Rightarrow> pystr + json"
  subscript_error :: "json \<Rightarrow> pystr"
  validate_response :: "json \<Rightarrow> json \<Rightarrow> json \<Rightarrow> pystr + AnalysisResponse"
  GITHUB_ACCESS_TOKEN :: pystr

text \<open>
  A computation is its outcome (an exception or a value) and the events it caused.
  \<open>seq\<close> runs a second computation on the value of a first one, unless that raised.
\<close>

type_synonym 'a comp = "(exn + 'a) \<times> event list"

definition seq :: "'a comp \<Rightarrow> ('a \<Rightarrow> 'b comp) \<Rightarrow> 'b comp" where
  "seq m f = (case m of
      (Inl e, evs) \<Rightarrow> (Inl e, evs)
    | (Inr x, evs) \<Rightarrow> apsnd ((@) evs) (f x))"

definition raise_or :: "py_exn + 'a \<Rightarrow> 'a comp" where
  "raise_or r = (case r of Inl e \<Rightarrow> (Inl (Other e), []) | Inr x \<Rightarrow> (Inr x, []))"

section \<open>Repository Fetcher\<close>

text \<open>The test on a directory: \<open>any(folder.lower() in path.lower() for folder in ...)\<close>.\<close>

definition dir_forbidden :: "(nat \<Rightarrow> pystr) \<Rightarrow> pystr \<Rightarrow> bool" where
  "dir_forbidden ul path =
     list_ex (\<lambda>folder. str_contains (lower ul path) (lower ul folder)) FORBIDDEN_FOLDERS"

text \<open>The segment \<open>f"// File: {path}\n{file_data}\n\n"\<close> and the warning line.\<close>

definition file_segment :: "pystr \<Rightarrow> pystr \<Rightarrow> pystr" where
  "file_segment path file_data = py ''// File: '' @ path @ [10] @ file_data @ [10, 10]"

definition decode_warning :: "pystr \<Rightarrow> pystr \<Rightarrow> pystr" where
  "decode_warning path e = py ''Warning: Error decoding file '' @ path @ py '': '' @ e"

fun entries :: "'c ContentFile \<Rightarrow> nat" where
  "entries (File p c) = 1"
| "entries (Dir p cs) = Suc (sum_list (map entries cs))"
| "entries (DirRaises p e) = 1"

text \<open>
  The inner \<open>try\<close> holds the whole expression
  \<open>base64.b64decode(file_content.content).decode('utf-8')\<close> and its clause is
  \<open>except Exception\<close>: an exception of reading \<open>content\<close> and an exception of the decoding
  are both printed as a decoding error, and the loop goes on.
\<close>

text \<open>
  The loop \<open>while contents:\<close> on the queue \<open>contents\<close> and the accumulator \<open>code_content\<close>:
  \<open>contents.pop(0)\<close> takes the head, \<open>contents.extend(...)\<close> appends the listing of a
  directory. It ends with the accumulated text, or with the exception of a directory
  listing, and gives the listings it asked for and the lines it printed. The queue is
  finite and every directory holds its own listing, so the loop ends.
\<close>

function fetch_loop ::
    "'c env \<Rightarrow> 'c ContentFile list \<Rightarrow> pystr \<Rightarrow> (py_exn + pystr) \<times> event list" where
  "fetch_loop E [] code_content = (Inr code_content, [])"
| "fetch_loop E (Dir path children # contents) code_content =
     (if \<not> dir_forbidden (unicode_lower E) path
      then apsnd ((#) (GetContents path)) (fetch_loop E (contents @ children) code_content)
      else fetch_loop E contents code_content)"
| "fetch_loop E (DirRaises path e # contents) code_content =
     (if \<not> dir_forbidden (unicode_lower E) path
      then (Inl e, [GetContents path])
      else fetch_loop E contents code_content)"
| "fetch_loop E (File path content # contents) code_content =
     (if should_process_path (unicode_lower E) path
      then (case content of
              Inl e \<Rightarrow>
                apsnd ((#) (Print (decode_warning path (str_exn e))))
                  (fetch_loop E contents code_content)
            | Inr c \<Rightarrow>
                (case decode_content E c of
                   Inr file_data \<Rightarrow>
                     fetch_loop E contents (code_content @ file_segment path file_data)
                 | Inl m \<Rightarrow>
                     apsnd ((#) (Print (decode_warning path m)))
                       (fetch_loop E contents code_content)))
      else fetch_loop E contents code_content)"
  by pat_completeness auto
termination
  by (relation "measure (\<lambda>(E, contents, code_content). sum_list (map entries contents))") auto

text \<open>The body of the \<open>try\<close> of \<open>fetch_github_code\<close>, on the name \<open>f"{owner}/{repo}"\<close>.\<close>

definition fetch_body :: "'c env \<Rightarrow> pystr \<Rightarrow> pystr \<Rightarrow> pystr comp" where
  "fetch_body E token full_name =
     (case get_repo E token full_name of
        Inl e \<Rightarrow> (Inl (Other e), [GetRepo full_name])
      | Inr repository \<Rightarrow>
          (case repository of
             Inl e \<Rightarrow> (Inl (Other e), [GetRepo full_name, GetContents []])
           | Inr contents \<Rightarrow>
               (case fetch_loop E contents [] of
                  (Inl e, evs) \<Rightarrow> (Inl (Other e), GetRepo full_name # GetContents [] # evs)
                | (Inr code_content, evs) \<Rightarrow>
                    (if code_content = []
                     then Inl (HTTPException 404
                            (py ''No supported files found in the repository.''))
                     else Inr code_content,
                     GetRepo full_name # GetContents [] # evs))))"

text \<open>The clause \<open>except GithubException as e\<close>; any other exception passes.\<close>

fun except_GithubException :: "exn \<Rightarrow> exn" where
  "except_GithubException (Other (GithubException status m)) =
     (if status = 401
      then HTTPException 401
             (py ''GitHub authentication failed. Please check your access token.'')
      else if status = 404
      then HTTPException 404 (py ''GitHub repository not found. Please check the URL.'')
      else HTTPException 500 (py ''GitHub API error: '' @ m))"
| "except_GithubException e = e"

text \<open>
  \<open>parts[-2]\<close> raises \<open>IndexError\<close> on a list of one element, before the \<open>try\<close>;
  \<open>split\<close> never returns an empty list.
\<close>

definition fetch_github_code :: "'c env \<Rightarrow> pystr \<Rightarrow> pystr \<Rightarrow> pystr comp" where
  "fetch_github_code E url token =
     (let parts = split 47 url in
      if length parts < 2
      then (Inl (Other (Exception (py ''list index out of range''))), [])
      else
        let owner = parts ! (length parts - 2);
            repo = parts ! (length parts - 1)
        in apfst (map_sum except_GithubException id)
             (fetch_body E token (owner @ py ''/'' @ repo)))"

section \<open>Alignment Analyzer, Question Generator, Request Handler\<close>

definition analyze_code :: "'c env \<Rightarrow> pystr \<Rightarrow> pystr \<Rightarrow> json comp" where
  "analyze_code E code requirement =
     (case chain_run E (AnalyzeCode code requirement) of
        Inl e \<Rightarrow> (Inl (Other e), [ChainRun (AnalyzeCode code requirement)])
      | Inr response \<Rightarrow>
          (case json_loads E response of
             Inl m \<Rightarrow> (Inl (Other (Exception m)), [ChainRun (AnalyzeCode code requirement)])
           | Inr v \<Rightarrow> (Inr v, [ChainRun (AnalyzeCode code requirement)])))"

definition generate_questions :: "'c env \<Rightarrow> json \<Rightarrow> pystr \<Rightarrow> int \<Rightarrow> json comp" where
  "generate_questions E code_summary requirement question_count' =
     (case chain_run E (GenerateQuestions code_summary requirement question_count') of
        Inl e \<Rightarrow> (Inl (Other e), [ChainRun (GenerateQuestions code_summary requirement question_count')])
      | Inr response \<Rightarrow>
          (case json_loads E response of
             Inl m \<Rightarrow> (Inl (Other (Exception m)),
                       [ChainRun (GenerateQuestions code_summary requirement question_count')])
           | Inr v \<Rightarrow> (Inr v, [ChainRun (GenerateQuestions code_summary requirement question_count')])))"

text \<open>
  \<open>x[key]\<close> for a string key: the value of a dict, \<open>KeyError\<close> (whose \<open>str\<close> is the key in
  quotes) when the key is absent, \<open>TypeError\<close> when \<open>x\<close> is not a dict.
\<close>

definition getitem :: "'c env \<Rightarrow> json \<Rightarrow> pystr \<Rightarrow> py_exn + json" where
  "getitem E x key =
     (case x of
        JObj kvs \<Rightarrow>
          (case map_of kvs key of
             Some v \<Rightarrow> Inr v
           | None \<Rightarrow> Inl (Exception ([39] @ key @ [39])))
      | _ \<Rightarrow> Inl (Exception (subscript_error E x)))"

text \<open>The body of the \<open>try\<close> of the handler.\<close>

definition handler_body :: "'c env \<Rightarrow> AnalysisRequest \<Rightarrow> AnalysisResponse comp" where
  "handler_body E request =
     (let url = clean_input (github_url request);
          requirement = clean_input (curriculum request)
      in
      seq (fetch_github_code E url (GITHUB_ACCESS_TOKEN E)) (\<lambda>code_data.
      seq (analyze_code E code_data requirement) (\<lambda>analysis_result.
      seq (raise_or (getitem E analysis_result (py ''alignmentSummary''))) (\<lambda>summary.
      seq (generate_questions E summary requirement (question_count request)) (\<lambda>questions.
      seq (raise_or (getitem E analysis_result (py ''alignmentScore''))) (\<lambda>score.
      seq (raise_or (getitem E analysis_result (py ''alignmentSummary''))) (\<lambda>summary'.
      (case validate_response E score summary' questions of
         Inl m \<Rightarrow> (Inl (Other (Exception m)), [])
       | Inr response \<Rightarrow> (Inr response, [])))))))))"

text \<open>
  \<open>except HTTPException as e: raise e\<close>, then \<open>except Exception as e\<close>, which raises an
  \<open>HTTPException\<close> of status 500.
\<close>

fun handler_except :: "exn \<Rightarrow> exn" where
  "handler_except (HTTPException status d) = HTTPException status d"
| "handler_except (Other e) =
     HTTPException 500 (py ''An unexpected error occurred: '' @ str_exn e)"

definition analyse_github_code :: "'c env \<Rightarrow> AnalysisRequest \<Rightarrow> AnalysisResponse comp" where
  "analyse_github_code E request = apfst (map_sum handler_except id) (handler_body E request)"

text \<open>
  The statements of the handler after the fetch, on the fetched text.
\<close>

definition handler_rest :: "'c env \<Rightarrow> AnalysisRequest \<Rightarrow> pystr \<Rightarrow> AnalysisResponse comp" where
  "handler_rest E request code_data =
     (let requirement = clean_input (curriculum request)
      in
      seq (analyze_code E code_data requirement) (\<lambda>analysis_result.
      seq (raise_or (getitem E analysis_result (py ''alignmentSummary''))) (\<lambda>summary.
      seq (generate_questions E summary requirement (question_count request)) (\<lambda>questions.
      seq (raise_or (getitem E analysis_result (py ''alignmentScore''))) (\<lambda>score.
      seq (raise_or (getitem E analysis_result (py ''alignmentSummary''))) (\<lambda>summary'.
      (case validate_response E score summary' questions of
         Inl m \<Rightarrow> (Inl (Other (Exception m)), [])
       | Inr response \<Rightarrow> (Inr response, []))))))))"

text \<open>
  The route \<open>@app.post("/analyse-github")\<close>. The web framework validates the request body
  against \<open>AnalysisRequest\<close> before it calls the handler: \<open>question_count\<close> is declared
  \<open>Field(..., ge=1, le=20)\<close>, and a body that fails the validation is answered with status
  422 and the list of validation errors as detail, without calling the handler. An
  \<open>HTTPException\<close> of the handler becomes a response with its status and its detail
  string; any other exception would become a plain 500 response. (The string fields of the
  record are strings by their type; a body with a missing or ill-typed field is not a value
  of the record.)
\<close>

datatype detail = Message pystr | ValidationErrors

definition post_analyse_github ::
    "'c env \<Rightarrow> AnalysisRequest \<Rightarrow> ((int \<times> detail) + AnalysisResponse) \<times> event list" where
  "post_analyse_github E request =
     (if question_count request < 1 \<or> 20 < question_count request
      then (Inl (422, ValidationErrors), [])
      else
        (case analyse_github_code E request of
           (Inl (HTTPException status d), evs) \<Rightarrow> (Inl (status, Message d), evs)
         | (Inl (Other e), evs) \<Rightarrow> (Inl (500, Message (py ''Internal Server Error'')), evs)
         | (Inr response, evs) \<Rightarrow> (Inr response, evs)))"

text \<open>
  For the statements about a request: the name \<open>f"{owner}/{repo}"\<close> of a URL that has at
  least two components, and the outcome of the body of the fetcher's \<open>try\<close> on the request
  (before its \<open>except\<close> clause and the handler's).
\<close>

definition repo_full_name :: "pystr \<Rightarrow> pystr" where
  "repo_full_name url = last (butlast (split 47 url)) @ py ''/'' @ last (split 47 url)"

definition fetch_attempt :: "'c env \<Rightarrow> AnalysisRequest \<Rightarrow> exn + pystr" where
  "fetch_attempt E request =
     fst (fetch_body E (GITHUB_ACCESS_TOKEN E) (repo_full_name (clean_input (github_url request))))"

section \<open>Repository trees\<close>

text \<open>The entries of a tree that are not directories, with their contents.\<close>

fun files :: "'c ContentFile \<Rightarrow> (pystr \<times> (py_exn + 'c)) list" where
  "files (File path c) = [(path, c)]"
| "files (Dir path children) = concat (map files children)"
| "files (DirRaises path e) = []"

definition all_files :: "'c ContentFile list \<Rightarrow> (pystr \<times> (py_exn + 'c)) list" where
  "all_files contents = concat (map files contents)"

fun entry_path :: "'c ContentFile \<Rightarrow> pystr" where
  "entry_path (File path c) = path"
| "entry_path (Dir path children) = path"
| "entry_path (DirRaises path e) = path"

text \<open>
  The hosting service lists under a directory entries whose path is the directory's path,
  \<open>/\<close>, and a name.
\<close>

fun paths_nested :: "'c ContentFile \<Rightarrow> bool" where
  "paths_nested (Dir path children) =
     (\<forall>c \<in> set children. prefix (path @ [47]) (entry_path c) \<and> paths_nested c)"
| "paths_nested _ = True"

text \<open>The first test of \<open>should_process_path\<close>: a deny-listed name is a segment of the path.\<close>

definition has_forbidden_segment :: "(nat \<Rightarrow> pystr) \<Rightarrow> pystr \<Rightarrow> bool" where
  "has_forbidden_segment ul path =
     list_ex (\<lambda>folder. lower ul folder \<in> set (split 47 (lower ul path))) FORBIDDEN_FOLDERS"

text \<open>
  In a tree, the directories that the fetcher does not descend into are those with a
  deny-listed segment: no directory path merely contains a deny-listed name inside a
  longer segment.
\<close>

fun pruned_by_segment :: "(nat \<Rightarrow> pystr) \<Rightarrow> 'c ContentFile \<Rightarrow> bool" where
  "pruned_by_segment ul (File path c) = True"
| "pruned_by_segment ul (Dir path children) =
     ((dir_forbidden ul path \<longrightarrow> has_forbidden_segment ul path)
      \<and> (\<forall>c \<in> set children. pruned_by_segment ul c))"
| "pruned_by_segment ul (DirRaises path e) =
     (dir_forbidden ul path \<longrightarrow> has_forbidden_segment ul path)"

text \<open>
  The files of a tree that the Path Filter accepts and whose content is read and decodes,
  each with its decoded text.
\<close>

definition decoded :: "'c env \<Rightarrow> py_exn + 'c \<Rightarrow> pystr option" where
  "decoded E content =
     (case content of
        Inl e \<Rightarrow> None
      | Inr c \<Rightarrow> (case decode_content E c of Inr file_data \<Rightarrow> Some file_data | Inl m \<Rightarrow> None))"

definition accepted_segments :: "'c env \<Rightarrow> 'c ContentFile list \<Rightarrow> (pystr \<times> pystr) list" where
  "accepted_segments E contents =
     concat (map (\<lambda>(path, content).
        if should_process_path (unicode_lower E) path
        then (case decoded E content of Some file_data \<Rightarrow> [(path, file_data)] | None \<Rightarrow> [])
        else []) (all_files contents))"

text \<open>The number of places of a text where a given string starts.\<close>

fun occurrences :: "pystr \<Rightarrow> pystr \<Rightarrow> nat" where
  "occurrences sub [] = 0"
| "occurrences sub (c # cs) = (if prefix sub (c # cs) then 1 else 0) + occurrences sub cs"

section \<open>A test double of the environment\<close>

text \<open>
  A small repository \<open>octocat/demo\<close> and scripted services, used to run the definitions.
  The tables give what the real functions return on the texts used here.
\<close>

definition demo_decode :: "pystr \<Rightarrow> pystr + pystr" where
  "demo_decode c =
     (if c = py ''cHJpbnQoMSk='' then Inr (py ''print(1)'')
      else if c = py ''eCA9IDI='' then Inr (py ''x = 2'')
      else Inl ([39] @ py ''utf-8'' @ [39] @ py '' codec can'' @ [39]
                @ py ''t decode byte 0xff in position 0: invalid start byte''))"

definition demo_contents :: "pystr ContentFile list" where
  "demo_contents =
     [File (py ''main.py'') (Inr (py ''cHJpbnQoMSk='')),
      Dir (py ''src'') [File (py ''src/util.py'') (Inr (py ''eCA9IDI='')),
                        File (py ''src/logo.py'') (Inr (py ''/w=='')),
                        File (py ''src/notes.txt'') (Inr (py ''eCA9IDI=''))],
      Dir (py ''node_modules'') [File (py ''node_modules/index.js'') (Inr (py ''eCA9IDI=''))],
      File (py ''README.md'') (Inr (py ''eCA9IDI=''))]"

text \<open>
  A listing in which the hosting service refuses the content of the second file (a rate
  limit reached during the traversal).
\<close>

definition demo_limited :: "pystr ContentFile list" where
  "demo_limited =
     [File (py ''main.py'') (Inr (py ''cHJpbnQoMSk='')),
      File (py ''app.py'') (Inl (GithubException 403 (py ''403 rate limit exceeded'')))]"

definition demo_analysis_text :: pystr where
  \<open>demo_analysis_text = py ''{"alignmentScore": 80, "alignmentSummary": "ok"}''\<close>

definition demo_questions_text :: pystr where
  \<open>demo_questions_text =
     py ''[{"question": "q1", "lookingFor": "l1"}, {"question": "q2", "lookingFor": "l2"}]''\<close>

definition demo_analysis :: json where
  "demo_analysis =
     JObj [(py ''alignmentScore'', JInt 80), (py ''alignmentSummary'', JStr (py ''ok''))]"

definition demo_questions :: "json list" where
  "demo_questions =
     [JObj [(py ''question'', JStr (py ''q1'')), (py ''lookingFor'', JStr (py ''l1''))],
      JObj [(py ''question'', JStr (py ''q2'')), (py ''lookingFor'', JStr (py ''l2''))]]"

definition demo_json_loads :: "pystr \<Rightarrow> pystr + json" where
  "demo_json_loads t =
     (if t = demo_analysis_text then Inr demo_analysis
      else if t = demo_questions_text then Inr (JArr demo_questions)
      else Inl (py ''Expecting value: line 1 column 1 (char 0)''))"

fun demo_str_dict :: "json \<Rightarrow> (pystr \<times> pystr) list option" where
  "demo_str_dict (JObj [(k1, JStr v1), (k2, JStr v2)]) = Some [(k1, v1), (k2, v2)]"
| "demo_str_dict _ = None"

fun demo_validate :: "json \<Rightarrow> json \<Rightarrow> json \<Rightarrow> pystr + AnalysisResponse" where
  "demo_validate (JInt n) (JStr s) (JArr qs) =
     (if list_all (\<lambda>q. demo_str_dict q \<noteq> None) qs
      then Inr \<lparr>alignment_score = n, alignment_summary = s,
                questions_list = map (\<lambda>q. the (demo_str_dict q)) qs\<rparr>
      else Inl (py ''validation error''))"
| "demo_validate _ _ _ = Inl (py ''validation error'')"

text \<open>
  \<open>demo_env a q\<close>: the only valid token is \<open>token\<close>; there are the repositories
  \<open>octocat/demo\<close>, \<open>octocat/docs\<close> (which has no source file) and \<open>octocat/limited\<close>, and
  two names on which the service fails. The model answers the first prompt with the text \<open>a\<close> and the second
  one with the text \<open>q\<close>, whatever count is asked.
\<close>

definition demo_env :: "pystr \<Rightarrow> pystr \<Rightarrow> pystr env" where
  "demo_env a q =
     \<lparr>unicode_lower = ul_none,
      decode_content = demo_decode,
      get_repo = (\<lambda>token full_name.
         if token \<noteq> py ''token'' then Inl (GithubException 401 (py ''401 Bad credentials''))
         else if full_name = py ''octocat/demo'' then Inr (Inr demo_contents)
         else if full_name = py ''octocat/docs''
           then Inr (Inr [File (py ''README.md'') (Inr (py ''eCA9IDI=''))])
         else if full_name = py ''octocat/limited'' then Inr (Inr demo_limited)
         else if full_name = py ''octocat/busy''
           then Inl (GithubException 403 (py ''403 rate limit exceeded''))
         else if full_name = py ''octocat/offline''
           then Inl (Exception (py ''Connection refused''))
         else Inl (GithubException 404 (py ''404 Not Found''))),
      chain_run = (\<lambda>i. case i of
         AnalyzeCode code requirement \<Rightarrow> Inr a
       | GenerateQuestions code_summary requirement n \<Rightarrow> Inr q),
      json_loads = demo_json_loads,
      subscript_error = (\<lambda>x. py ''object is not subscriptable''),
      validate_response = demo_validate,
      GITHUB_ACCESS_TOKEN = py ''token''\<rparr>"

definition demo_request :: AnalysisRequest where
  "demo_request =
     \<lparr>github_url = py ''https://github.com/octocat/demo'',
      curriculum = py ''implement login'',
      question_count = 1\<rparr>"

definition demo_request_for :: "string \<Rightarrow> AnalysisRequest" where
  "demo_request_for name =
     \<lparr>github_url = py ''octocat/'' @ py name,
      curriculum = py ''implement login'',
      question_count = 1\<rparr>"

definition demo_code :: pystr where
  "demo_code = py ''// File: main.py'' @ [10] @ py ''print(1)'' @ [10, 10]
     @ py ''// File: src/util.py'' @ [10] @ py ''x = 2'' @ [10, 10]"

fun is_ChainRun :: "event \<Rightarrow> bool" where
  "is_ChainRun (ChainRun i) = True"
| "is_ChainRun _ = False"

section \<open>Properties of the string operations\<close>

lemma lower_append: "lower ul (a @ b) = lower ul a @ lower ul b"
  by (simp add: lower_def)

lemma split_not_Nil: "split sep s \<noteq> []"
  by (cases s) (auto split: list.splits)

lemma split_append_sep: "split sep (a @ sep # b) = split sep a @ split sep b"
proof (induction a)
  case Nil
  then show ?case by (cases "split sep b") (auto simp: split_not_Nil)
next
  case (Cons c a)
  then show ?case
    by (cases "split sep a") (auto simp: split_not_Nil split: list.splits)
qed

lemma endswith_append: "endswith (a @ b) b"
  by (simp add: endswith_def)

lemma single_spaced_tl: "single_spaced (a # xs) \<Longrightarrow> single_spaced xs"
  by (cases xs) auto

lemma single_spaced_dropWhile: "single_spaced xs \<Longrightarrow> single_spaced (dropWhile P xs)"
  by (induction xs) (auto dest: single_spaced_tl)

lemma single_spaced_prefix: "single_spaced (xs @ ys) \<Longrightarrow> single_spaced xs"
proof (induction xs rule: single_spaced.induct)
  case 1
  then show ?case by simp
next
  case (2 c)
  then show ?case by (cases ys) auto
next
  case (3 a b cs)
  then show ?case by auto
qed

lemma single_spaced_strip: "single_spaced xs \<Longrightarrow> single_spaced (strip xs)"
proof -
  assume a: "single_spaced xs"
  let ?t = "dropWhile isspace xs"
  have "?t = rev (dropWhile isspace (rev ?t)) @ rev (takeWhile isspace (rev ?t))"
    by (metis rev_append rev_rev_ident takeWhile_dropWhile_id)
  moreover have "single_spaced ?t"
    using a by (rule single_spaced_dropWhile)
  ultimately show ?thesis
    unfolding strip_def by (metis single_spaced_prefix)
qed

lemma hd_sub_ws: "xs \<noteq> [] \<Longrightarrow> \<not> isspace (hd xs) \<Longrightarrow> sub_ws xs \<noteq> [] \<and> hd (sub_ws xs) = hd xs"
  by (cases xs) auto

lemma single_spaced_Cons:
  "single_spaced ys \<Longrightarrow> (isspace a \<longrightarrow> a = 32 \<and> (ys \<noteq> [] \<longrightarrow> \<not> isspace (hd ys))) \<Longrightarrow>
   single_spaced (a # ys)"
  by (cases ys) auto

lemma single_spaced_sub_ws: "single_spaced (sub_ws xs)"
proof (induction xs rule: sub_ws.induct)
  case 1
  then show ?case by simp
next
  case (2 c cs)
  show ?case
  proof (cases "isspace c")
    case True
    let ?r = "dropWhile isspace cs"
    have "sub_ws ?r \<noteq> [] \<longrightarrow> \<not> isspace (hd (sub_ws ?r))"
    proof (cases "?r = []")
      case True
      then have "sub_ws ?r = []" by (simp only: sub_ws.simps)
      then show ?thesis by (simp only: not_False_eq_True simp_thms)
    next
      case False
      then have "\<not> isspace (hd ?r)" by (rule hd_dropWhile)
      with False show ?thesis using hd_sub_ws by metis
    qed
    with True 2 show ?thesis by (simp add: single_spaced_Cons)
  next
    case False
    with 2 show ?thesis by (simp add: single_spaced_Cons)
  qed
qed

lemma set_sub_ws: "set (sub_ws xs) \<subseteq> insert 32 (set xs)"
proof (induction xs rule: sub_ws.induct)
  case 1
  then show ?case by simp
next
  case (2 c cs)
  have "set (dropWhile isspace cs) \<subseteq> set cs"
    by (rule set_dropWhileD [THEN subsetI])
  with 2 show ?case by (cases "isspace c") auto
qed

lemma set_strip: "set (strip xs) \<subseteq> set xs"
proof
  fix x
  assume "x \<in> set (strip xs)"
  then have "x \<in> set (dropWhile isspace (rev (dropWhile isspace xs)))"
    by (simp add: strip_def)
  then have "x \<in> set (dropWhile isspace xs)"
    using set_dropWhileD by fastforce
  then show "x \<in> set xs" by (rule set_dropWhileD)
qed

lemma strip_ends: "strip xs \<noteq> [] \<Longrightarrow> \<not> isspace (hd (strip xs)) \<and> \<not> isspace (last (strip xs))"
proof -
  assume ne: "strip xs \<noteq> []"
  let ?t = "dropWhile isspace xs"
  let ?u = "dropWhile isspace (rev ?t)"
  from ne have u: "?u \<noteq> []" by (simp add: strip_def)
  then have "\<not> isspace (hd ?u)" by (rule hd_dropWhile)
  with u have l: "\<not> isspace (last (strip xs))"
    by (simp add: strip_def last_rev)
  have t: "?t \<noteq> []"
  proof
    assume "?t = []"
    then have "?u = []" by (simp only: rev.simps dropWhile.simps)
    with u show False ..
  qed
  then have ht: "\<not> isspace (hd ?t)" by (rule hd_dropWhile)
  have "?t = strip xs @ rev (takeWhile isspace (rev ?t))"
    unfolding strip_def by (metis rev_append rev_rev_ident takeWhile_dropWhile_id)
  with ne have "hd ?t = hd (strip xs)" by (metis hd_append2)
  with ht l show ?thesis by simp
qed

section \<open>The sanitizer and the Path Filter\<close>

lemma clean_input_shape:
  "list_all (\<lambda>c. \<not> is_control c) (clean_input s)
   \<and> single_spaced (clean_input s)
   \<and> (clean_input s \<noteq> [] \<longrightarrow>
        \<not> isspace (hd (clean_input s)) \<and> \<not> isspace (last (clean_input s)))"
proof -
  let ?f = "filter (\<lambda>c. \<not> is_control c) s"
  have c: "clean_input s = strip (sub_ws ?f)"
    by (simp add: clean_input_def)
  have "set (clean_input s) \<subseteq> insert 32 (set ?f)"
    unfolding c using set_strip set_sub_ws by blast
  moreover have "\<not> is_control 32" by (simp add: is_control_def)
  ultimately have "\<forall>x \<in> set (clean_input s). \<not> is_control x" by auto
  then have 1: "list_all (\<lambda>c. \<not> is_control c) (clean_input s)"
    by (simp add: list_all_iff)
  have 2: "single_spaced (clean_input s)"
    unfolding c by (rule single_spaced_strip) (rule single_spaced_sub_ws)
  have 3: "clean_input s \<noteq> [] \<longrightarrow>
        \<not> isspace (hd (clean_input s)) \<and> \<not> isspace (last (clean_input s))"
    unfolding c using strip_ends by blast
  from 1 2 3 show ?thesis by blast
qed

lemma split_whitespace_Cons:
  "\<not> isspace c \<Longrightarrow>
   split_whitespace (c # x) =
     (if x = [] \<or> isspace (hd x) then [c] # split_whitespace x
      else (c # hd (split_whitespace x)) # tl (split_whitespace x))"
  by (cases x) auto

lemma split_whitespace_dropWhile:
  "split_whitespace (dropWhile isspace x) = split_whitespace x"
  by (induction x) auto

lemma split_whitespace_spaces: "list_all isspace z \<Longrightarrow> split_whitespace z = []"
  by (induction z) auto

lemma split_whitespace_append_spaces:
  "list_all isspace z \<Longrightarrow> split_whitespace (y @ z) = split_whitespace y"
proof (induction y)
  case Nil
  then show ?case by (simp add: split_whitespace_spaces)
next
  case (Cons c y)
  show ?case
  proof (cases "isspace c")
    case True
    with Cons show ?thesis by simp
  next
    case False
    show ?thesis
    proof (cases y)
      case Nil
      with False Cons.prems show ?thesis
        by (cases z) (auto simp: split_whitespace_spaces)
    next
      case (Cons d ds)
      with False Cons.IH [OF Cons.prems] show ?thesis
        by (simp only: split_whitespace_Cons [OF False] append_Cons)
           simp
    qed
  qed
qed

lemma split_whitespace_strip: "split_whitespace (strip x) = split_whitespace x"
proof -
  let ?t = "dropWhile isspace x"
  have t: "?t = strip x @ rev (takeWhile isspace (rev ?t))"
    unfolding strip_def by (metis rev_append rev_rev_ident takeWhile_dropWhile_id)
  have "list_all isspace (rev (takeWhile isspace (rev ?t)))"
    by (simp add: list_all_iff) (meson set_takeWhileD)
  from split_whitespace_append_spaces [OF this, of "strip x"] t
  have "split_whitespace ?t = split_whitespace (strip x)" by simp
  then show ?thesis by (simp add: split_whitespace_dropWhile)
qed

lemma sub_ws_Nil: "(sub_ws x = []) = (x = [])"
  by (cases x) auto

lemma hd_sub_ws_space: "x \<noteq> [] \<Longrightarrow> isspace (hd (sub_ws x)) = isspace (hd x)"
  by (cases x) (auto simp: isspace_def)

lemma split_whitespace_sub_ws: "split_whitespace (sub_ws x) = split_whitespace x"
proof (induction x rule: sub_ws.induct)
  case 1
  then show ?case by simp
next
  case (2 c cs)
  show ?case
  proof (cases "isspace c")
    case True
    have "isspace 32" by (simp add: isspace_def)
    with True 2 show ?thesis
      by (simp add: split_whitespace_dropWhile)
  next
    case False
    with 2 have ih: "split_whitespace (sub_ws cs) = split_whitespace cs" by simp
    from False have "sub_ws (c # cs) = c # sub_ws cs" by simp
    then show ?thesis
      using ih hd_sub_ws_space [of cs]
      by (simp only: split_whitespace_Cons [OF False] sub_ws_Nil) auto
  qed
qed

lemma join_space_Cons_hd:
  "W \<noteq> [] \<Longrightarrow> join_space ((c # hd W) # tl W) = c # join_space W"
  by (cases W rule: join_space.cases) auto

lemma join_space_Cons: "W \<noteq> [] \<Longrightarrow> join_space (w # W) = w @ 32 # join_space W"
  by (cases W) auto

lemma join_split_whitespace:
  "single_spaced x \<Longrightarrow> x \<noteq> [] \<Longrightarrow> \<not> isspace (last x) \<Longrightarrow>
   join_space (split_whitespace x) = dropWhile isspace x"
proof (induction x)
  case Nil
  then show ?case by simp
next
  case (Cons c cs)
  show ?case
  proof (cases "cs = []")
    case True
    with Cons.prems show ?thesis by simp
  next
    case ne: False
    from Cons.prems ne have ss: "single_spaced cs" and l: "\<not> isspace (last cs)"
      by (auto dest: single_spaced_tl)
    from Cons.IH [OF ss ne l] have ih: "join_space (split_whitespace cs) = dropWhile isspace cs" .
    have dn: "dropWhile isspace cs \<noteq> []"
      using ne l by (metis dropWhile_eq_Nil_conv last_in_set)
    have wn: "split_whitespace cs \<noteq> []"
    proof
      assume "split_whitespace cs = []"
      with ih have "dropWhile isspace cs = []" by (simp del: dropWhile_eq_Nil_conv)
      with dn show False ..
    qed
    obtain d ds where cs: "cs = d # ds" using ne by (cases cs) auto
    show ?thesis
    proof (cases "isspace c")
      case True
      with Cons.prems cs have "\<not> isspace d" by simp
      with True ih cs show ?thesis by simp
    next
      case False
      show ?thesis
      proof (cases "isspace d")
        case True
        from Cons.prems(1) cs True ne have d32: "d = 32"
          by (cases ds) auto
        from Cons.prems(1) cs True have "ds = [] \<or> \<not> isspace (hd ds)"
          by (cases ds) auto
        then have "dropWhile isspace ds = ds" by (cases ds) auto
        with cs True d32 have dc: "dropWhile isspace cs = ds" "cs = 32 # ds" by simp_all
        from False True cs have e: "split_whitespace (c # cs) = [c] # split_whitespace cs"
          by (simp only: split_whitespace_Cons [OF False]) simp
        have j: "join_space (split_whitespace (c # cs)) = [c] @ 32 # join_space (split_whitespace cs)"
          by (simp only: e join_space_Cons [OF wn])
        show ?thesis
          unfolding j ih dc(1) using False dc(2) by simp
      next
        case nd: False
        from cs nd have dc: "dropWhile isspace cs = cs" by simp
        from False nd cs have e: "split_whitespace (c # cs)
            = (c # hd (split_whitespace cs)) # tl (split_whitespace cs)"
          by (simp only: split_whitespace_Cons [OF False]) simp
        have j: "join_space (split_whitespace (c # cs)) = c # join_space (split_whitespace cs)"
          by (simp only: e join_space_Cons_hd [OF wn])
        show ?thesis
          unfolding j ih dc using False by simp
      qed
    qed
  qed
qed

lemma strip_sub_ws_words: "strip (sub_ws t) = join_space (split_whitespace t)"
proof (cases "strip (sub_ws t) = []")
  case True
  then have "split_whitespace (strip (sub_ws t)) = []" by simp
  then have "split_whitespace t = []"
    by (simp add: split_whitespace_strip split_whitespace_sub_ws)
  with True show ?thesis by simp
next
  case False
  have ss: "single_spaced (strip (sub_ws t))"
    by (rule single_spaced_strip) (rule single_spaced_sub_ws)
  from strip_ends [OF False] have e: "\<not> isspace (hd (strip (sub_ws t)))"
    "\<not> isspace (last (strip (sub_ws t)))" by simp_all
  from e(1) False have "dropWhile isspace (strip (sub_ws t)) = strip (sub_ws t)"
    by (cases "strip (sub_ws t)") auto
  with join_split_whitespace [OF ss False e(2)]
  show ?thesis
    by (simp add: split_whitespace_strip split_whitespace_sub_ws)
qed

text \<open>
  C6 (as stated). Every run of whitespace of the input is collapsed to a single space:
  refuted by \<open>a<TAB>b\<close>. TAB is whitespace; collapsing the run between the two letters to
  one space gives \<open>a b\<close>, while the sanitizer, which deletes the control characters first,
  returns \<open>ab\<close>.
\<close>

theorem clean_input_tab_counterexample:
  "isspace 9
   \<and> join_space (split_whitespace [97, 9, 98]) = [97, 32, 98]
   \<and> clean_input [97, 9, 98] = [97, 98]"
  by (simp add: clean_input_def is_control_def isspace_def strip_def)

text \<open>
  C6 (amended). For every input string, \<open>clean_input\<close> first deletes every control
  character (U+0000 to U+001F and U+007F to U+009F, among them TAB, LF and CR, which are
  deleted and not replaced by a space) and returns the words of what is left, that is its
  maximal runs of non-whitespace characters, joined by single spaces. So the result has no
  control character, every whitespace character in it is one space not followed by
  whitespace, and it neither starts nor ends with whitespace.
\<close>

theorem clean_input_joins_words:
  "clean_input s = join_space (split_whitespace (filter (\<lambda>c. \<not> is_control c) s))
   \<and> list_all (\<lambda>c. \<not> is_control c) (clean_input s)
   \<and> single_spaced (clean_input s)
   \<and> (clean_input s \<noteq> [] \<longrightarrow>
        \<not> isspace (hd (clean_input s)) \<and> \<not> isspace (last (clean_input s)))"
proof -
  have "clean_input s = join_space (split_whitespace (filter (\<lambda>c. \<not> is_control c) s))"
    by (simp add: clean_input_def strip_sub_ws_words)
  with clean_input_shape [of s] show ?thesis by simp
qed

theorem clean_input_joins_words_witness:
  "clean_input [32, 9, 97, 32, 8195, 98, 7, 99, 10, 160] = [97, 32, 98, 99]
   \<and> filter (\<lambda>c. \<not> is_control c) [32, 9, 97, 32, 8195, 98, 7, 99, 10, 160]
       = [32, 97, 32, 8195, 98, 99, 160]
   \<and> split_whitespace [32, 97, 32, 8195, 98, 99, 160] = [[97], [98, 99]]
   \<and> join_space [[97], [98, 99]] = [97, 32, 98, 99]
   \<and> list_all (\<lambda>c. \<not> is_control c) [97, 32, 98, 99]
   \<and> single_spaced [97, 32, 98, 99]
   \<and> [97, 32, 98, 99] \<noteq> ([]::pystr)
   \<and> \<not> isspace (hd [97, 32, 98, 99]) \<and> \<not> isspace (last [97, 32, 98, 99])"
proof -
  have f: "filter (\<lambda>c. \<not> is_control c) [32, 9, 97, 32, 8195, 98, 7, 99, 10, 160]
       = [32, 97, 32, 8195, 98, 99, 160]"
    by (simp add: is_control_def)
  have w: "split_whitespace [32, 97, 32, 8195, 98, 99, 160] = [[97], [98, 99]]"
    by (simp add: isspace_def)
  have j: "join_space [[97], [98, 99]] = [97, 32, 98, 99]"
    by simp
  from clean_input_joins_words [of "[32, 9, 97, 32, 8195, 98, 7, 99, 10, 160]"]
  show ?thesis
    unfolding f w j by (simp add: is_control_def isspace_def)
qed

lemmas path_eval = should_process_path_def lower_def lower_cp_def py_def FORBIDDEN_FOLDERS_def
  SUPPORTED_FILE_EXTENSIONS_def endswith_def ul_none_def

text \<open>
  C2. A path whose lowercased \<open>/\<close>-separated segments contain a deny-listed folder name
  (compared in lower case, as an exact segment) is rejected by the Path Filter, whatever
  its extension.
\<close>

theorem should_process_path_forbidden:
  "\<exists>seg \<in> set (split 47 (lower ul path)). \<exists>folder \<in> set FORBIDDEN_FOLDERS. seg = lower ul folder
   \<Longrightarrow> \<not> should_process_path ul path"
  by (auto simp: should_process_path_def list_ex_iff)

theorem should_process_path_forbidden_witness:
  "(\<exists>seg \<in> set (split 47 (lower ul_none (py ''src/Node_Modules/lib/index.JS''))).
      \<exists>folder \<in> set FORBIDDEN_FOLDERS. seg = lower ul_none folder)
   \<and> \<not> should_process_path ul_none (py ''src/Node_Modules/lib/index.JS'')"
proof -
  have h: "\<exists>seg \<in> set (split 47 (lower ul_none (py ''src/Node_Modules/lib/index.JS''))).
      \<exists>folder \<in> set FORBIDDEN_FOLDERS. seg = lower ul_none folder"
    by (simp add: path_eval)
  from h should_process_path_forbidden [OF h] show ?thesis by blast
qed

text \<open>
  C3. A path that ends in an extension equal, up to letter case, to an allow-listed one and
  that has no deny-listed segment is accepted by the Path Filter; replacing the extension
  by one that differs only in letter case never changes the result.
\<close>

theorem should_process_path_supported:
  "(ext \<in> set SUPPORTED_FILE_EXTENSIONS \<and> lower ul e = lower ul ext
      \<and> \<not> (\<exists>folder \<in> set FORBIDDEN_FOLDERS. lower ul folder \<in> set (split 47 (lower ul (stem @ e))))
     \<longrightarrow> should_process_path ul (stem @ e))
   \<and> (lower ul e' = lower ul e \<longrightarrow>
        should_process_path ul (stem @ e') = should_process_path ul (stem @ e))"
proof -
  have "endswith (lower ul (stem @ e)) (lower ul e)"
    by (simp add: endswith_append lower_append)
  then have 1: "ext \<in> set SUPPORTED_FILE_EXTENSIONS \<and> lower ul e = lower ul ext
      \<and> \<not> (\<exists>folder \<in> set FORBIDDEN_FOLDERS. lower ul folder \<in> set (split 47 (lower ul (stem @ e))))
     \<longrightarrow> should_process_path ul (stem @ e)"
    by (auto simp: should_process_path_def list_ex_iff)
  have 2: "lower ul e' = lower ul e \<longrightarrow>
        should_process_path ul (stem @ e') = should_process_path ul (stem @ e)"
    by (simp add: should_process_path_def lower_append)
  from 1 2 show ?thesis by blast
qed

theorem should_process_path_supported_witness:
  "py ''.py'' \<in> set SUPPORTED_FILE_EXTENSIONS
   \<and> lower ul_none (py ''.PY'') = lower ul_none (py ''.py'')
   \<and> \<not> (\<exists>folder \<in> set FORBIDDEN_FOLDERS.
          lower ul_none folder \<in> set (split 47 (lower ul_none (py ''src/Main'' @ py ''.PY''))))
   \<and> should_process_path ul_none (py ''src/Main'' @ py ''.PY'')
   \<and> lower ul_none (py ''.Py'') = lower ul_none (py ''.PY'')
   \<and> should_process_path ul_none (py ''src/Main'' @ py ''.Py'')"
proof -
  have a: "py ''.py'' \<in> set SUPPORTED_FILE_EXTENSIONS"
    by (simp add: path_eval)
  have b: "lower ul_none (py ''.PY'') = lower ul_none (py ''.py'')"
    by (simp add: path_eval)
  have c: "\<not> (\<exists>folder \<in> set FORBIDDEN_FOLDERS.
          lower ul_none folder \<in> set (split 47 (lower ul_none (py ''src/Main'' @ py ''.PY''))))"
    by (simp add: path_eval)
  have d: "lower ul_none (py ''.Py'') = lower ul_none (py ''.PY'')"
    by (simp add: path_eval)
  from a b c d
    should_process_path_supported [of "py ''.py''" ul_none "py ''.PY''" "py ''src/Main''" "py ''.Py''"]
  show ?thesis by blast
qed

section \<open>Running the test double\<close>

lemmas demo_eval = demo_env_def demo_json_loads_def demo_analysis_text_def demo_questions_text_def
  demo_questions_def demo_analysis_def demo_contents_def demo_decode_def demo_request_def demo_code_def

lemmas fetch_eval = fetch_github_code_def fetch_body_def dir_forbidden_def str_contains_def
  file_segment_def decode_warning_def sublist_code

lemma demo_clean_url:
  "clean_input (py ''https://github.com/octocat/demo'') = py ''https://github.com/octocat/demo''"
  by (simp add: clean_input_def is_control_def isspace_def strip_def py_def)

lemma demo_clean_curriculum:
  "clean_input (py ''implement login'') = py ''implement login''"
  by (simp add: clean_input_def is_control_def isspace_def strip_def py_def)

lemma demo_fetch:
  "fetch_github_code (demo_env a q) (py ''https://github.com/octocat/demo'') (py ''token'')
     = (Inr demo_code,
        [GetRepo (py ''octocat/demo''), GetContents [], GetContents (py ''src''),
         Print (decode_warning (py ''src/logo.py'')
           ([39] @ py ''utf-8'' @ [39] @ py '' codec can'' @ [39]
                @ py ''t decode byte 0xff in position 0: invalid start byte''))])"
  by (simp add: demo_eval fetch_eval path_eval)

lemma fetch_loop_no_ChainRun: "filter is_ChainRun (snd (fetch_loop E contents code)) = []"
  by (induction E contents code rule: fetch_loop.induct) (auto split: sum.splits)

lemma fetch_github_code_no_ChainRun:
  "filter is_ChainRun (snd (fetch_github_code E url token)) = []"
proof -
  have "filter is_ChainRun (snd (fetch_body E token nm)) = []" for nm
    using fetch_loop_no_ChainRun [of E _ "[]"]
    by (auto simp: fetch_body_def split: sum.splits prod.splits) (metis snd_conv)+
  then show ?thesis
    by (simp add: fetch_github_code_def Let_def)
qed

text \<open>
  C7. When the repository was fetched and the model's answer is not valid JSON, in
  \<open>analyze_code\<close> or in \<open>generate_questions\<close>, the request fails with status 500 and the
  parser's message in the detail: no response with a default score is returned, and the
  model is not called again (one call per prompt).
\<close>

theorem malformed_llm_output_fails:
  assumes "fetch_github_code E (clean_input (github_url request)) (GITHUB_ACCESS_TOKEN E)
             = (Inr code_data, evs)"
      and "chain_run E (AnalyzeCode code_data (clean_input (curriculum request))) = Inr response"
  shows "(json_loads E response = Inl m \<longrightarrow>
            fst (analyse_github_code E request)
              = Inl (HTTPException 500 (py ''An unexpected error occurred: '' @ m))
            \<and> filter is_ChainRun (snd (analyse_github_code E request))
              = [ChainRun (AnalyzeCode code_data (clean_input (curriculum request)))])
       \<and> (json_loads E response = Inr analysis_result
            \<and> getitem E analysis_result (py ''alignmentSummary'') = Inr summary
            \<and> chain_run E (GenerateQuestions summary (clean_input (curriculum request))
                  (question_count request)) = Inr response'
            \<and> json_loads E response' = Inl m \<longrightarrow>
            fst (analyse_github_code E request)
              = Inl (HTTPException 500 (py ''An unexpected error occurred: '' @ m))
            \<and> filter is_ChainRun (snd (analyse_github_code E request))
              = [ChainRun (AnalyzeCode code_data (clean_input (curriculum request))),
                 ChainRun (GenerateQuestions summary (clean_input (curriculum request))
                   (question_count request))])"
proof -
  have n: "filter is_ChainRun evs = []"
    using fetch_github_code_no_ChainRun [of E "clean_input (github_url request)" "GITHUB_ACCESS_TOKEN E"]
    by (simp add: assms(1))
  show ?thesis
    using assms n
    by (simp add: analyse_github_code_def handler_body_def seq_def analyze_code_def
        generate_questions_def raise_or_def Let_def)
qed

theorem malformed_llm_output_fails_witness:
  "fetch_github_code (demo_env (py ''Sorry'') demo_questions_text)
       (clean_input (github_url demo_request)) (GITHUB_ACCESS_TOKEN (demo_env (py ''Sorry'') demo_questions_text))
     = (Inr demo_code, snd (fetch_github_code (demo_env (py ''Sorry'') demo_questions_text)
            (py ''https://github.com/octocat/demo'') (py ''token'')))
   \<and> chain_run (demo_env (py ''Sorry'') demo_questions_text)
        (AnalyzeCode demo_code (clean_input (curriculum demo_request))) = Inr (py ''Sorry'')
   \<and> json_loads (demo_env (py ''Sorry'') demo_questions_text) (py ''Sorry'')
        = Inl (py ''Expecting value: line 1 column 1 (char 0)'')
   \<and> fst (analyse_github_code (demo_env (py ''Sorry'') demo_questions_text) demo_request)
        = Inl (HTTPException 500
            (py ''An unexpected error occurred: Expecting value: line 1 column 1 (char 0)''))
   \<and> json_loads (demo_env demo_analysis_text (py ''Sorry'')) demo_analysis_text = Inr demo_analysis
   \<and> getitem (demo_env demo_analysis_text (py ''Sorry'')) demo_analysis (py ''alignmentSummary'')
        = Inr (JStr (py ''ok''))
   \<and> fst (analyse_github_code (demo_env demo_analysis_text (py ''Sorry'')) demo_request)
        = Inl (HTTPException 500
            (py ''An unexpected error occurred: Expecting value: line 1 column 1 (char 0)''))
   \<and> filter is_ChainRun (snd (analyse_github_code (demo_env demo_analysis_text (py ''Sorry'')) demo_request))
        = [ChainRun (AnalyzeCode demo_code (py ''implement login'')),
           ChainRun (GenerateQuestions (JStr (py ''ok'')) (py ''implement login'') 1)]"
proof -
  let ?E1 = "demo_env (py ''Sorry'') demo_questions_text"
  let ?E2 = "demo_env demo_analysis_text (py ''Sorry'')"
  have u: "clean_input (github_url demo_request) = py ''https://github.com/octocat/demo''"
    by (simp add: demo_request_def demo_clean_url)
  have c: "clean_input (curriculum demo_request) = py ''implement login''"
    by (simp add: demo_request_def demo_clean_curriculum)
  have t: "GITHUB_ACCESS_TOKEN (demo_env a q) = py ''token''" for a q
    by (simp add: demo_env_def)
  have f: "fetch_github_code (demo_env a q) (clean_input (github_url demo_request))
        (GITHUB_ACCESS_TOKEN (demo_env a q))
     = (Inr demo_code, snd (fetch_github_code (demo_env a q)
            (py ''https://github.com/octocat/demo'') (py ''token'')))" for a q
    by (simp add: u t demo_fetch)
  have r: "chain_run (demo_env a q) (AnalyzeCode demo_code (clean_input (curriculum demo_request)))
      = Inr a" for a q
    by (simp add: demo_env_def)
  have j1: "json_loads ?E1 (py ''Sorry'') = Inl (py ''Expecting value: line 1 column 1 (char 0)'')"
    by (simp add: demo_env_def demo_json_loads_def demo_analysis_text_def demo_questions_text_def py_def)
  have j2: "json_loads ?E2 demo_analysis_text = Inr demo_analysis"
    by (simp add: demo_env_def demo_json_loads_def)
  have g: "getitem ?E2 demo_analysis (py ''alignmentSummary'') = Inr (JStr (py ''ok''))"
    by (simp add: getitem_def demo_analysis_def py_def)
  have q: "chain_run ?E2 (GenerateQuestions (JStr (py ''ok'')) (clean_input (curriculum demo_request))
      (question_count demo_request)) = Inr (py ''Sorry'')"
    by (simp add: demo_env_def)
  have j3: "json_loads ?E2 (py ''Sorry'') = Inl (py ''Expecting value: line 1 column 1 (char 0)'')"
    by (simp add: demo_env_def demo_json_loads_def demo_analysis_text_def demo_questions_text_def py_def)
  have q1: "question_count demo_request = 1"
    by (simp add: demo_request_def)
  have p: "py ''An unexpected error occurred: '' @ py ''Expecting value: line 1 column 1 (char 0)''
     = py ''An unexpected error occurred: Expecting value: line 1 column 1 (char 0)''"
    by (simp add: py_def)
  from malformed_llm_output_fails [OF f r, of "py ''Sorry''" demo_questions_text
      "py ''Expecting value: line 1 column 1 (char 0)''"]
    malformed_llm_output_fails [OF f r, of demo_analysis_text "py ''Sorry''"
      "py ''Expecting value: line 1 column 1 (char 0)''" demo_analysis "JStr (py ''ok'')" "py ''Sorry''"]
    f r j1 j2 g q j3
  show ?thesis
    unfolding c q1 p by simp
qed

section \<open>Question count and repository name\<close>

lemma length_split: "length (split sep s) = Suc (length (filter (\<lambda>c. c = sep) s))"
  by (induction s) (auto split: list.splits simp: split_not_Nil)

lemma split_snoc_sep: "split sep (s @ [sep]) = split sep s @ [[]]"
  using split_append_sep [of sep s "[]"] by simp

lemma last_two:
  "\<not> length xs < 2 \<Longrightarrow>
   xs ! (length xs - 2) = last (butlast xs) \<and> xs ! (length xs - 1) = last xs"
proof -
  assume a: "\<not> length xs < 2"
  then obtain ys b where x: "xs = ys @ [b]"
    by (cases xs rule: rev_cases) auto
  with a obtain zs c where "ys = zs @ [c]"
    by (cases ys rule: rev_cases) auto
  with x show ?thesis by (simp add: nth_append butlast_append)
qed

lemma hd_fetch_body: "hd (snd (fetch_body E token nm)) = GetRepo nm"
  by (simp add: fetch_body_def split: sum.splits prod.splits)

text \<open>
  C9 (as stated). The returned sequence has at most the requested number of questions:
  refuted when the model answers a request for one question with two.
\<close>

theorem generate_questions_counterexample:
  "fst (generate_questions (demo_env demo_analysis_text demo_questions_text)
          (JStr (py ''ok'')) (py ''implement login'') 1)
     = Inr (JArr demo_questions)
   \<and> \<not> int (length demo_questions) \<le> 1"
  by (simp add: generate_questions_def demo_env_def demo_json_loads_def demo_questions_def
      demo_analysis_text_def demo_questions_text_def py_def)

text \<open>
  C9 (amended). The requested count reaches the model as an input variable of the prompt
  and nowhere else: when the model answers and the answer parses, \<open>generate_questions\<close>
  returns the parsed value as it is, neither truncated nor padded, after one model call.
\<close>

theorem generate_questions_unbounded:
  "chain_run E (GenerateQuestions code_summary requirement n) = Inr response \<Longrightarrow>
   json_loads E response = Inr v \<Longrightarrow>
   generate_questions E code_summary requirement n
     = (Inr v, [ChainRun (GenerateQuestions code_summary requirement n)])"
  by (simp add: generate_questions_def)

theorem generate_questions_unbounded_witness:
  "chain_run (demo_env demo_analysis_text demo_questions_text)
       (GenerateQuestions (JStr (py ''ok'')) (py ''implement login'') 1)
     = Inr demo_questions_text
   \<and> json_loads (demo_env demo_analysis_text demo_questions_text) demo_questions_text
     = Inr (JArr demo_questions)
   \<and> generate_questions (demo_env demo_analysis_text demo_questions_text)
       (JStr (py ''ok'')) (py ''implement login'') 1
     = (Inr (JArr demo_questions),
        [ChainRun (GenerateQuestions (JStr (py ''ok'')) (py ''implement login'') 1)])"
proof -
  let ?E = "demo_env demo_analysis_text demo_questions_text"
  have a: "chain_run ?E (GenerateQuestions (JStr (py ''ok'')) (py ''implement login'') 1)
      = Inr demo_questions_text"
    by (simp add: demo_env_def)
  have b: "json_loads ?E demo_questions_text = Inr (JArr demo_questions)"
    by (simp add: demo_env_def demo_json_loads_def demo_analysis_text_def
        demo_questions_text_def py_def)
  from a b generate_questions_unbounded [OF a b] show ?thesis by simp
qed

text \<open>
  C10 (as stated). Every URL yields a repository name made of its last two components and
  reaches the hosting service: refuted by a URL without \<open>/\<close>, which has one component; the
  fetcher raises \<open>IndexError\<close> and the hosting service is never called.
\<close>

theorem fetch_github_code_no_slash_counterexample:
  "split 47 (py ''demo'') = [py ''demo'']
   \<and> fetch_github_code (demo_env demo_analysis_text demo_questions_text) (py ''demo'') (py ''token'')
       = (Inl (Other (Exception (py ''list index out of range''))), [])"
  by (simp add: fetch_github_code_def py_def)

text \<open>
  C10 (amended). A URL that contains \<open>/\<close> is never rejected: the hosting service is asked
  for the name made of exactly its last two \<open>/\<close>-separated components, and a URL that ends
  in \<open>/\<close> gives an empty repository name. A URL without \<open>/\<close> makes the fetcher raise
  \<open>IndexError\<close> before any call of the hosting service.
\<close>

theorem fetch_github_code_identifier:
  "(47 \<notin> set url \<longrightarrow>
      fetch_github_code E url token
        = (Inl (Other (Exception (py ''list index out of range''))), []))
   \<and> (47 \<in> set url \<longrightarrow>
      fetch_github_code E url token
        = apfst (map_sum except_GithubException id)
            (fetch_body E token
               (last (butlast (split 47 url)) @ py ''/'' @ last (split 47 url)))
      \<and> hd (snd (fetch_github_code E url token))
          = GetRepo (last (butlast (split 47 url)) @ py ''/'' @ last (split 47 url)))
   \<and> last (split 47 (url @ py ''/'')) = []"
proof -
  have n: "47 \<notin> set url \<Longrightarrow> length (split 47 url) < 2"
    by (auto simp: length_split filter_empty_conv)
  have y: "47 \<in> set url \<Longrightarrow> \<not> length (split 47 url) < 2"
  proof -
    assume "47 \<in> set url"
    then have "filter (\<lambda>c. c = 47) url \<noteq> []"
      by (simp add: filter_empty_conv)
    then show ?thesis
      by (simp add: length_split Suc_le_eq not_less)
  qed
  have 1: "47 \<notin> set url \<longrightarrow>
      fetch_github_code E url token
        = (Inl (Other (Exception (py ''list index out of range''))), [])"
    using n by (simp add: fetch_github_code_def)
  have 2: "47 \<in> set url \<longrightarrow>
      fetch_github_code E url token
        = apfst (map_sum except_GithubException id)
            (fetch_body E token
               (last (butlast (split 47 url)) @ py ''/'' @ last (split 47 url)))"
    using y last_two [of "split 47 url"] by (simp add: fetch_github_code_def Let_def)
  have 3: "last (split 47 (url @ py ''/'')) = []"
    by (simp add: py_def split_snoc_sep)
  from 1 2 3 show ?thesis by (simp add: hd_fetch_body)
qed

theorem fetch_github_code_identifier_witness:
  "47 \<notin> set (py ''demo'')
   \<and> fetch_github_code (demo_env demo_analysis_text demo_questions_text) (py ''demo'') (py ''token'')
       = (Inl (Other (Exception (py ''list index out of range''))), [])
   \<and> 47 \<in> set (py ''https://github.com/octocat/demo/'')
   \<and> hd (snd (fetch_github_code (demo_env demo_analysis_text demo_questions_text)
          (py ''https://github.com/octocat/demo/'') (py ''token'')))
       = GetRepo (py ''demo/'')"
proof -
  have a: "47 \<notin> set (py ''demo'')"
    by (simp add: py_def)
  have b: "47 \<in> set (py ''https://github.com/octocat/demo/'')"
    by (simp add: py_def)
  have c: "last (butlast (split 47 (py ''https://github.com/octocat/demo/''))) @ py ''/''
      @ last (split 47 (py ''https://github.com/octocat/demo/'')) = py ''demo/''"
    by (simp add: py_def)
  from a b
    fetch_github_code_identifier [of "py ''demo''" "demo_env demo_analysis_text demo_questions_text"
      "py ''token''"]
    fetch_github_code_identifier [of "py ''https://github.com/octocat/demo/''"
      "demo_env demo_analysis_text demo_questions_text" "py ''token''"]
  show ?thesis
    unfolding c by (simp add: hd_fetch_body)
qed

section \<open>Failure mapping of the endpoint\<close>

lemma fetch_body_HTTPException:
  "fst (fetch_body E token nm) = Inl (HTTPException s d) \<Longrightarrow>
   s = 404 \<and> d = py ''No supported files found in the repository.''"
  by (auto simp: fetch_body_def split: sum.splits prod.splits if_splits)

lemma handler_body_fetch_failure:
  "fst (fetch_github_code E (clean_input (github_url request)) (GITHUB_ACCESS_TOKEN E)) = Inl x \<Longrightarrow>
   fst (handler_body E request) = Inl x"
  by (cases "fetch_github_code E (clean_input (github_url request)) (GITHUB_ACCESS_TOKEN E)")
     (simp add: handler_body_def seq_def Let_def)

lemma seq_Inl: "fst (seq m f) = Inl x \<Longrightarrow> fst m = Inl x \<or> (\<exists>v. fst m = Inr v \<and> fst (f v) = Inl x)"
  by (cases m) (auto simp: seq_def split: sum.splits)

lemma analyze_code_Other: "fst (analyze_code E c r) = Inl x \<Longrightarrow> \<exists>e. x = Other e"
  by (auto simp: analyze_code_def split: sum.splits)

lemma generate_questions_Other: "fst (generate_questions E c r n) = Inl x \<Longrightarrow> \<exists>e. x = Other e"
  by (auto simp: generate_questions_def split: sum.splits)

lemma raise_or_Other: "fst (raise_or r) = Inl x \<Longrightarrow> \<exists>e. x = Other e"
  by (auto simp: raise_or_def split: sum.splits)

lemma slash_parts: "(47 \<in> set url) = (\<not> length (split 47 url) < 2)"
proof -
  have "(47 \<in> set url) = (filter (\<lambda>c. c = 47) url \<noteq> [])"
    by (auto simp: filter_empty_conv)
  then show ?thesis
    by (simp add: length_split Suc_le_eq not_less)
qed

lemma fetch_github_code_slash:
  "47 \<in> set url \<Longrightarrow>
   fetch_github_code E url token
     = apfst (map_sum except_GithubException id) (fetch_body E token (repo_full_name url))"
  using last_two [of "split 47 url"]
  by (simp add: fetch_github_code_def Let_def slash_parts repo_full_name_def)

lemma fetch_github_code_no_slash:
  "47 \<notin> set url \<Longrightarrow>
   fetch_github_code E url token = (Inl (Other (Exception (py ''list index out of range''))), [])"
  by (simp add: fetch_github_code_def slash_parts)

lemma analyse_fetch_failure:
  "fst (fetch_github_code E (clean_input (github_url request)) (GITHUB_ACCESS_TOKEN E)) = Inl x \<Longrightarrow>
   fst (analyse_github_code E request) = Inl (handler_except x)"
  by (simp add: analyse_github_code_def handler_body_fetch_failure)

lemma demo_clean_names:
  "clean_input (py ''octocat/nothing'') = py ''octocat/nothing''"
  "clean_input (py ''octocat/docs'') = py ''octocat/docs''"
  "clean_input (py ''octocat/busy'') = py ''octocat/busy''"
  "clean_input (py ''octocat/offline'') = py ''octocat/offline''"
  "clean_input (py ''demo'') = py ''demo''"
  by (simp_all add: clean_input_def is_control_def isspace_def strip_def py_def)

lemma demo_full_names:
  "repo_full_name (py ''octocat/nothing'') = py ''octocat/nothing''"
  "repo_full_name (py ''octocat/docs'') = py ''octocat/docs''"
  "repo_full_name (py ''octocat/busy'') = py ''octocat/busy''"
  "repo_full_name (py ''octocat/offline'') = py ''octocat/offline''"
  "repo_full_name (py ''https://github.com/octocat/demo'') = py ''octocat/demo''"
  by (simp_all add: repo_full_name_def py_def)

lemma demo_slashes:
  "47 \<in> set (py ''octocat/nothing'')"
  "47 \<in> set (py ''octocat/docs'')"
  "47 \<in> set (py ''octocat/busy'')"
  "47 \<in> set (py ''octocat/offline'')"
  "47 \<in> set (py ''https://github.com/octocat/demo'')"
  "47 \<notin> set (py ''demo'')"
  by (simp_all add: py_def)

lemma demo_request_urls:
  "github_url (demo_request_for ''nothing'') = py ''octocat/nothing''"
  "github_url (demo_request_for ''docs'') = py ''octocat/docs''"
  "github_url (demo_request_for ''busy'') = py ''octocat/busy''"
  "github_url (demo_request_for ''offline'') = py ''octocat/offline''"
  "github_url demo_request = py ''https://github.com/octocat/demo''"
  by (simp_all add: demo_request_for_def demo_request_def py_def)

lemma demo_bodies:
  "fst (fetch_body (demo_env a q) (py ''expired'') (py ''octocat/demo''))
     = Inl (Other (GithubException 401 (py ''401 Bad credentials'')))"
  "fst (fetch_body (demo_env a q) (py ''token'') (py ''octocat/nothing''))
     = Inl (Other (GithubException 404 (py ''404 Not Found'')))"
  "fst (fetch_body (demo_env a q) (py ''token'') (py ''octocat/busy''))
     = Inl (Other (GithubException 403 (py ''403 rate limit exceeded'')))"
  "fst (fetch_body (demo_env a q) (py ''token'') (py ''octocat/offline''))
     = Inl (Other (Exception (py ''Connection refused'')))"
  by (simp_all add: fetch_body_def demo_env_def py_def)

lemma demo_body_docs:
  "fst (fetch_body (demo_env a q) (py ''token'') (py ''octocat/docs''))
     = Inl (HTTPException 404 (py ''No supported files found in the repository.''))"
proof -
  have "\<not> should_process_path ul_none (py ''README.md'')"
    by (simp add: path_eval)
  then have "fetch_loop (demo_env a q) [File (py ''README.md'') (Inr (py ''eCA9IDI=''))] [] = (Inr [], [])"
    by (simp add: demo_env_def)
  moreover have "get_repo (demo_env a q) (py ''token'') (py ''octocat/docs'')
      = Inr (Inr [File (py ''README.md'') (Inr (py ''eCA9IDI=''))])"
    by (simp add: demo_env_def py_def)
  ultimately show ?thesis
    by (simp add: fetch_body_def)
qed

lemma demo_token: "GITHUB_ACCESS_TOKEN (demo_env a q) = py ''token''"
  by (simp add: demo_env_def)

lemma demo_body_demo:
  "fst (fetch_body (demo_env a q) (py ''token'') (py ''octocat/demo'')) = Inr demo_code"
proof -
  have "fst (fetch_github_code (demo_env a q) (py ''https://github.com/octocat/demo'') (py ''token''))
      = Inr demo_code"
    by (simp add: demo_fetch)
  then show ?thesis
    by (cases "fst (fetch_body (demo_env a q) (py ''token'') (py ''octocat/demo''))")
       (simp_all add: fetch_github_code_slash demo_slashes demo_full_names)
qed

lemma demo_sorry:
  "json_loads (demo_env a q) (py ''Sorry'') = Inl (py ''Expecting value: line 1 column 1 (char 0)'')"
  by (simp add: demo_env_def demo_json_loads_def demo_analysis_text_def demo_questions_text_def py_def)

lemma handler_body_rest:
  "handler_body E request =
     seq (fetch_github_code E (clean_input (github_url request)) (GITHUB_ACCESS_TOKEN E))
       (handler_rest E request)"
  unfolding handler_body_def Let_def
  by (intro arg_cong [where f = "seq (fetch_github_code E (clean_input (github_url request))
        (GITHUB_ACCESS_TOKEN E))"] ext)
     (simp add: handler_rest_def Let_def)

lemma handler_rest_Other: "fst (handler_rest E request code) = Inl x \<Longrightarrow> \<exists>e. x = Other e"
  unfolding handler_rest_def Let_def
  by (auto dest!: seq_Inl analyze_code_Other generate_questions_Other raise_or_Other
      split: sum.splits)

lemma analyse_after_fetch:
  assumes "fst (fetch_github_code E (clean_input (github_url request)) (GITHUB_ACCESS_TOKEN E))
             = Inr code"
  shows "fst (analyse_github_code E request)
           = map_sum handler_except id (fst (handler_rest E request code))"
proof -
  obtain evs where f: "fetch_github_code E (clean_input (github_url request)) (GITHUB_ACCESS_TOKEN E)
      = (Inr code, evs)"
    using assms by (cases "fetch_github_code E (clean_input (github_url request)) (GITHUB_ACCESS_TOKEN E)") auto
  show ?thesis
    by (simp add: analyse_github_code_def handler_body_rest f seq_def)
qed

lemma fetch_github_code_HTTPException:
  assumes "fst (fetch_github_code E url token) = Inl (HTTPException s d)"
  shows "s = 401 \<or> s = 404 \<or> s = 500"
proof (cases "47 \<in> set url")
  case False
  with assms show ?thesis by (simp add: fetch_github_code_no_slash)
next
  case True
  show ?thesis
  proof (cases "fst (fetch_body E token (repo_full_name url))")
    case (Inr code)
    with True assms show ?thesis by (simp add: fetch_github_code_slash)
  next
    case (Inl x)
    with True assms have e: "except_GithubException x = HTTPException s d"
      by (simp add: fetch_github_code_slash)
    show ?thesis
    proof (cases x)
      case (HTTPException s' d')
      with Inl fetch_body_HTTPException [of E token "repo_full_name url" s' d'] e
      show ?thesis by simp
    next
      case (Other y)
      with e show ?thesis by (cases y) (auto split: if_splits)
    qed
  qed
qed

lemma analyse_failure_status:
  assumes "fst (analyse_github_code E request) = Inl x"
  shows "\<exists>s d. x = HTTPException s d \<and> (s = 401 \<or> s = 404 \<or> s = 500)"
proof (cases "fst (fetch_github_code E (clean_input (github_url request)) (GITHUB_ACCESS_TOKEN E))")
  case (Inl y)
  from analyse_fetch_failure [OF Inl] assms have x: "x = handler_except y" by simp
  show ?thesis
  proof (cases y)
    case (HTTPException s d)
    with Inl fetch_github_code_HTTPException [of E _ _ s d] x show ?thesis by simp
  next
    case (Other e)
    with x show ?thesis by simp
  qed
next
  case (Inr code)
  from analyse_after_fetch [OF Inr] assms obtain y where
    y: "fst (handler_rest E request code) = Inl y" and x: "x = handler_except y"
    by (cases "fst (handler_rest E request code)") auto
  from handler_rest_Other [OF y] x show ?thesis by auto
qed

lemma post_valid:
  "1 \<le> question_count request \<Longrightarrow> question_count request \<le> 20 \<Longrightarrow>
   fst (analyse_github_code E request) = Inl (HTTPException s d) \<Longrightarrow>
   fst (post_analyse_github E request) = Inl (s, Message d)"
  by (cases "analyse_github_code E request") (simp add: post_analyse_github_def)

text \<open>
  C5 (as stated). Every failure of the endpoint has status 401, 404 or 500 and a detail
  string: refuted by a request that asks for no question, which the route answers with
  status 422 and a list of validation errors.
\<close>

theorem endpoint_422_counterexample:
  "question_count (demo_request\<lparr>question_count := 0\<rparr>) = 0
   \<and> post_analyse_github (demo_env demo_analysis_text demo_questions_text)
        (demo_request\<lparr>question_count := 0\<rparr>)
       = (Inl (422, ValidationErrors), [])"
  by (simp add: post_analyse_github_def)

text \<open>
  C5 (amended). A request whose question count is outside 1..20 is rejected by the route
  with status 422 and a list of validation errors, before the handler runs. For any other
  request the failure mapping is: a \<open>GithubException\<close> of status 401 that leaves the
  fetcher's \<open>try\<close> block gives 401; one of status 404, and a traversal that ends with no
  text, give 404; every other exception that leaves the fetcher (also the \<open>IndexError\<close> of a
  URL without \<open>/\<close>) or a later step of the handler gives 500; each with a detail string.
  No failure has another status.
\<close>

theorem endpoint_failure_mapping:
  "(question_count request < 1 \<or> 20 < question_count request \<longrightarrow>
      post_analyse_github E request = (Inl (422, ValidationErrors), []))
   \<and> (1 \<le> question_count request \<and> question_count request \<le> 20 \<longrightarrow>
        (47 \<notin> set (clean_input (github_url request)) \<longrightarrow>
           fst (post_analyse_github E request)
             = Inl (500, Message (py ''An unexpected error occurred: list index out of range'')))
      \<and> (47 \<in> set (clean_input (github_url request)) \<longrightarrow>
           (fetch_attempt E request = Inl (Other (GithubException 401 m)) \<longrightarrow>
              fst (post_analyse_github E request)
                = Inl (401, Message
                    (py ''GitHub authentication failed. Please check your access token.'')))
         \<and> (fetch_attempt E request = Inl (Other (GithubException 404 m)) \<longrightarrow>
              fst (post_analyse_github E request)
                = Inl (404, Message (py ''GitHub repository not found. Please check the URL.'')))
         \<and> (fetch_attempt E request = Inl (HTTPException s d) \<longrightarrow>
              fst (post_analyse_github E request)
                = Inl (404, Message (py ''No supported files found in the repository.'')))
         \<and> (fetch_attempt E request = Inl (Other (GithubException s m)) \<and> s \<noteq> 401 \<and> s \<noteq> 404 \<longrightarrow>
              fst (post_analyse_github E request)
                = Inl (500, Message (py ''GitHub API error: '' @ m)))
         \<and> (fetch_attempt E request = Inl (Other (Exception m)) \<longrightarrow>
              fst (post_analyse_github E request)
                = Inl (500, Message (py ''An unexpected error occurred: '' @ m)))
         \<and> (fetch_attempt E request = Inr code \<and> fst (handler_rest E request code) = Inl x \<longrightarrow>
              (\<exists>e. x = Other e
                 \<and> fst (post_analyse_github E request)
                     = Inl (500, Message (py ''An unexpected error occurred: '' @ str_exn e))))))
   \<and> (fst (post_analyse_github E request) = Inl (status, dt) \<longrightarrow>
        status = 422 \<and> dt = ValidationErrors
        \<or> (status = 401 \<or> status = 404 \<or> status = 500) \<and> (\<exists>d'. dt = Message d'))"
proof -
  let ?url = "clean_input (github_url request)"
  let ?f = "fetch_github_code E ?url (GITHUB_ACCESS_TOKEN E)"
  let ?valid = "1 \<le> question_count request \<and> question_count request \<le> 20"
  have p: "py ''An unexpected error occurred: '' @ py ''list index out of range''
      = py ''An unexpected error occurred: list index out of range''"
    by (simp add: py_def)
  have A: "question_count request < 1 \<or> 20 < question_count request \<longrightarrow>
      post_analyse_github E request = (Inl (422, ValidationErrors), [])"
    by (simp add: post_analyse_github_def)
  have B: "?valid \<Longrightarrow> 47 \<notin> set ?url \<Longrightarrow> fst (post_analyse_github E request)
             = Inl (500, Message (py ''An unexpected error occurred: list index out of range''))"
  proof -
    assume v: ?valid and "47 \<notin> set ?url"
    then have "fst ?f = Inl (Other (Exception (py ''list index out of range'')))"
      by (simp add: fetch_github_code_no_slash)
    from analyse_fetch_failure [OF this] v show ?thesis
      by (simp add: post_valid p)
  qed
  have C: "?valid \<Longrightarrow> 47 \<in> set ?url \<Longrightarrow> fetch_attempt E request = Inl y \<Longrightarrow>
      handler_except (except_GithubException y) = HTTPException s' d' \<Longrightarrow>
      fst (post_analyse_github E request) = Inl (s', Message d')" for y s' d'
  proof -
    assume v: ?valid and a: "47 \<in> set ?url" and b: "fetch_attempt E request = Inl y"
      and h: "handler_except (except_GithubException y) = HTTPException s' d'"
    from a b have "fst ?f = Inl (except_GithubException y)"
      by (simp add: fetch_github_code_slash fetch_attempt_def)
    from analyse_fetch_failure [OF this] v h show ?thesis
      by (simp add: post_valid)
  qed
  have D: "?valid \<Longrightarrow> 47 \<in> set ?url \<Longrightarrow> fetch_attempt E request = Inr code \<Longrightarrow>
      fst (handler_rest E request code) = Inl x \<Longrightarrow>
      (\<exists>e. x = Other e
         \<and> fst (post_analyse_github E request)
             = Inl (500, Message (py ''An unexpected error occurred: '' @ str_exn e)))"
  proof -
    assume v: ?valid and a: "47 \<in> set ?url" and b: "fetch_attempt E request = Inr code"
      and r: "fst (handler_rest E request code) = Inl x"
    from a b have "fst ?f = Inr code"
      by (simp add: fetch_github_code_slash fetch_attempt_def)
    from analyse_after_fetch [OF this] r
    have s: "fst (analyse_github_code E request) = Inl (handler_except x)" by simp
    from handler_rest_Other [OF r] obtain e where e: "x = Other e" by blast
    with s v have "fst (post_analyse_github E request)
        = Inl (500, Message (py ''An unexpected error occurred: '' @ str_exn e))"
      by (simp add: post_valid)
    with e show ?thesis by blast
  qed
  have E404: "fetch_attempt E request = Inl (HTTPException s d) \<Longrightarrow>
      s = 404 \<and> d = py ''No supported files found in the repository.''"
    unfolding fetch_attempt_def by (rule fetch_body_HTTPException)
  have F: "fst (post_analyse_github E request) = Inl (status, dt) \<longrightarrow>
        status = 422 \<and> dt = ValidationErrors
        \<or> (status = 401 \<or> status = 404 \<or> status = 500) \<and> (\<exists>d'. dt = Message d')"
  proof (cases ?valid)
    case False
    then show ?thesis by (auto simp: post_analyse_github_def)
  next
    case True
    show ?thesis
    proof
      assume q: "fst (post_analyse_github E request) = Inl (status, dt)"
      show "status = 422 \<and> dt = ValidationErrors
        \<or> (status = 401 \<or> status = 404 \<or> status = 500) \<and> (\<exists>d'. dt = Message d')"
      proof (cases "fst (analyse_github_code E request)")
        case (Inr response)
        with True q show ?thesis
          by (cases "analyse_github_code E request") (simp add: post_analyse_github_def)
      next
        case (Inl y)
        from analyse_failure_status [OF Inl] obtain s' d' where
          y: "y = HTTPException s' d'" and s: "s' = 401 \<or> s' = 404 \<or> s' = 500"
          by blast
        from True Inl y have "fst (post_analyse_github E request) = Inl (s', Message d')"
          by (simp add: post_valid)
        with q s show ?thesis by auto
      qed
    qed
  qed
  have G: "?valid \<Longrightarrow> 47 \<in> set ?url \<Longrightarrow>
           (fetch_attempt E request = Inl (Other (GithubException 401 m)) \<longrightarrow>
              fst (post_analyse_github E request)
                = Inl (401, Message
                    (py ''GitHub authentication failed. Please check your access token.'')))
         \<and> (fetch_attempt E request = Inl (Other (GithubException 404 m)) \<longrightarrow>
              fst (post_analyse_github E request)
                = Inl (404, Message (py ''GitHub repository not found. Please check the URL.'')))
         \<and> (fetch_attempt E request = Inl (HTTPException s d) \<longrightarrow>
              fst (post_analyse_github E request)
                = Inl (404, Message (py ''No supported files found in the repository.'')))
         \<and> (fetch_attempt E request = Inl (Other (GithubException s m)) \<and> s \<noteq> 401 \<and> s \<noteq> 404 \<longrightarrow>
              fst (post_analyse_github E request)
                = Inl (500, Message (py ''GitHub API error: '' @ m)))
         \<and> (fetch_attempt E request = Inl (Other (Exception m)) \<longrightarrow>
              fst (post_analyse_github E request)
                = Inl (500, Message (py ''An unexpected error occurred: '' @ m)))"
    using C E404 by (auto simp del: handler_except.simps except_GithubException.simps
        simp: handler_except.simps except_GithubException.simps)
  from A B D G F show ?thesis by blast
qed

lemma demo_counts:
  "question_count demo_request = 1"
  "question_count (demo_request_for name) = 1"
  "question_count (demo_request\<lparr>github_url := u\<rparr>) = 1"
  "github_url (demo_request\<lparr>github_url := u\<rparr>) = u"
  by (simp_all add: demo_request_def demo_request_for_def)

lemma demo_rest_sorry:
  "fst (handler_rest (demo_env (py ''Sorry'') q) demo_request demo_code)
     = Inl (Other (Exception (py ''Expecting value: line 1 column 1 (char 0)'')))"
proof -
  have c: "chain_run (demo_env (py ''Sorry'') q) i = (case i of
         AnalyzeCode code requirement \<Rightarrow> Inr (py ''Sorry'')
       | GenerateQuestions code_summary requirement n \<Rightarrow> Inr q)" for i
    by (simp add: demo_env_def)
  show ?thesis
    by (simp add: handler_rest_def Let_def seq_def analyze_code_def c demo_sorry)
qed

theorem endpoint_failure_mapping_witness:
  "post_analyse_github (demo_env (py ''Sorry'') (py ''Sorry''))
       (demo_request\<lparr>question_count := 21\<rparr>) = (Inl (422, ValidationErrors), [])
   \<and> 47 \<notin> set (clean_input (github_url (demo_request\<lparr>github_url := py ''demo''\<rparr>)))
   \<and> fst (post_analyse_github (demo_env (py ''Sorry'') (py ''Sorry''))
           (demo_request\<lparr>github_url := py ''demo''\<rparr>))
       = Inl (500, Message (py ''An unexpected error occurred: list index out of range''))
   \<and> 47 \<in> set (clean_input (github_url demo_request))
   \<and> fetch_attempt ((demo_env (py ''Sorry'') (py ''Sorry''))\<lparr>GITHUB_ACCESS_TOKEN := py ''expired''\<rparr>)
           demo_request
       = Inl (Other (GithubException 401 (py ''401 Bad credentials'')))
   \<and> fst (post_analyse_github
           ((demo_env (py ''Sorry'') (py ''Sorry''))\<lparr>GITHUB_ACCESS_TOKEN := py ''expired''\<rparr>)
           demo_request)
       = Inl (401, Message (py ''GitHub authentication failed. Please check your access token.''))
   \<and> fetch_attempt (demo_env (py ''Sorry'') (py ''Sorry'')) (demo_request_for ''nothing'')
       = Inl (Other (GithubException 404 (py ''404 Not Found'')))
   \<and> fst (post_analyse_github (demo_env (py ''Sorry'') (py ''Sorry'')) (demo_request_for ''nothing''))
       = Inl (404, Message (py ''GitHub repository not found. Please check the URL.''))
   \<and> fetch_attempt (demo_env (py ''Sorry'') (py ''Sorry'')) (demo_request_for ''docs'')
       = Inl (HTTPException 404 (py ''No supported files found in the repository.''))
   \<and> fst (post_analyse_github (demo_env (py ''Sorry'') (py ''Sorry'')) (demo_request_for ''docs''))
       = Inl (404, Message (py ''No supported files found in the repository.''))
   \<and> fetch_attempt (demo_env (py ''Sorry'') (py ''Sorry'')) (demo_request_for ''busy'')
       = Inl (Other (GithubException 403 (py ''403 rate limit exceeded'')))
   \<and> fst (post_analyse_github (demo_env (py ''Sorry'') (py ''Sorry'')) (demo_request_for ''busy''))
       = Inl (500, Message (py ''GitHub API error: '' @ py ''403 rate limit exceeded''))
   \<and> fetch_attempt (demo_env (py ''Sorry'') (py ''Sorry'')) (demo_request_for ''offline'')
       = Inl (Other (Exception (py ''Connection refused'')))
   \<and> fst (post_analyse_github (demo_env (py ''Sorry'') (py ''Sorry'')) (demo_request_for ''offline''))
       = Inl (500, Message (py ''An unexpected error occurred: '' @ py ''Connection refused''))
   \<and> fetch_attempt (demo_env (py ''Sorry'') (py ''Sorry'')) demo_request = Inr demo_code
   \<and> fst (handler_rest (demo_env (py ''Sorry'') (py ''Sorry'')) demo_request demo_code)
       = Inl (Other (Exception (py ''Expecting value: line 1 column 1 (char 0)'')))
   \<and> fst (post_analyse_github (demo_env (py ''Sorry'') (py ''Sorry'')) demo_request)
       = Inl (500, Message (py ''An unexpected error occurred: ''
                @ py ''Expecting value: line 1 column 1 (char 0)''))"
proof -
  let ?E = "demo_env (py ''Sorry'') (py ''Sorry'')"
  let ?X = "?E\<lparr>GITHUB_ACCESS_TOKEN := py ''expired''\<rparr>"
  let ?r0 = "demo_request\<lparr>github_url := py ''demo''\<rparr>"
  have x: "GITHUB_ACCESS_TOKEN ?X = py ''expired''"
    "fst (fetch_body ?X (py ''expired'') (py ''octocat/demo''))
       = Inl (Other (GithubException 401 (py ''401 Bad credentials'')))"
    by (simp_all add: fetch_body_def demo_env_def py_def)
  have s0: "47 \<notin> set (clean_input (github_url ?r0))"
    by (simp add: demo_clean_names demo_slashes)
  have s1: "47 \<in> set (clean_input (github_url demo_request))"
    by (simp add: demo_request_urls demo_clean_url demo_slashes)
  have s2: "47 \<in> set (clean_input (github_url (demo_request_for ''nothing'')))"
    and s3: "47 \<in> set (clean_input (github_url (demo_request_for ''docs'')))"
    and s4: "47 \<in> set (clean_input (github_url (demo_request_for ''busy'')))"
    and s5: "47 \<in> set (clean_input (github_url (demo_request_for ''offline'')))"
    by (simp_all add: demo_request_urls demo_clean_names demo_slashes)
  have b1: "fetch_attempt ?X demo_request
         = Inl (Other (GithubException 401 (py ''401 Bad credentials'')))"
    by (simp add: fetch_attempt_def x demo_request_urls demo_clean_url demo_full_names)
  have b2: "fetch_attempt ?E (demo_request_for ''nothing'')
         = Inl (Other (GithubException 404 (py ''404 Not Found'')))"
    and b4: "fetch_attempt ?E (demo_request_for ''busy'')
         = Inl (Other (GithubException 403 (py ''403 rate limit exceeded'')))"
    and b5: "fetch_attempt ?E (demo_request_for ''offline'')
         = Inl (Other (Exception (py ''Connection refused'')))"
    by (simp_all add: fetch_attempt_def demo_token demo_request_urls demo_clean_names
        demo_full_names demo_bodies)
  have b3: "fetch_attempt ?E (demo_request_for ''docs'')
         = Inl (HTTPException 404 (py ''No supported files found in the repository.''))"
    by (simp add: fetch_attempt_def demo_token demo_request_urls demo_clean_names
        demo_full_names demo_body_docs)
  have b6: "fetch_attempt ?E demo_request = Inr demo_code"
    by (simp add: fetch_attempt_def demo_token demo_request_urls demo_clean_url
        demo_full_names demo_body_demo)
  have v: "question_count (demo_request\<lparr>question_count := 21\<rparr>) = 21"
    by simp
  note r = demo_rest_sorry [of "py ''Sorry''"]
  from s0 s1 s2 s3 s4 s5 b1 b2 b3 b4 b5 b6 r v
    endpoint_failure_mapping [of "demo_request\<lparr>question_count := 21\<rparr>" ?E]
    endpoint_failure_mapping [of ?r0 ?E]
    endpoint_failure_mapping [of demo_request ?X "py ''401 Bad credentials''"]
    endpoint_failure_mapping [of "demo_request_for ''nothing''" ?E "py ''404 Not Found''"]
    endpoint_failure_mapping [of "demo_request_for ''docs''" ?E _ 404
      "py ''No supported files found in the repository.''"]
    endpoint_failure_mapping [of "demo_request_for ''busy''" ?E "py ''403 rate limit exceeded''" 403]
    endpoint_failure_mapping [of "demo_request_for ''offline''" ?E "py ''Connection refused''"]
    endpoint_failure_mapping [of demo_request ?E _ _ _ demo_code
      "Other (Exception (py ''Expecting value: line 1 column 1 (char 0)''))"]
  show ?thesis
    by (simp add: demo_counts)
qed

section \<open>Empty results\<close>

lemma all_files_simps:
  "all_files [] = []"
  "all_files (File path c # contents) = (path, c) # all_files contents"
  "all_files (Dir path children # contents) = all_files children @ all_files contents"
  "all_files (DirRaises path e # contents) = all_files contents"
  "all_files (xs @ ys) = all_files xs @ all_files ys"
  by (simp_all add: all_files_def)

lemma fetch_loop_nothing_accepted:
  "\<forall>(path, c) \<in> set (all_files contents). \<not> should_process_path (unicode_lower E) path \<Longrightarrow>
   fst (fetch_loop E contents code) = Inr code' \<Longrightarrow> code' = code"
  by (induction E contents code rule: fetch_loop.induct)
     (auto simp: all_files_simps split: if_splits)

lemma fetch_body_Inr:
  "fst (fetch_body E token nm) = Inr code \<Longrightarrow>
   code \<noteq> [] \<and> (\<exists>contents. get_repo E token nm = Inr (Inr contents)
      \<and> fst (fetch_loop E contents []) = Inr code)"
  by (auto simp: fetch_body_def split: sum.splits prod.splits if_splits)

lemma fetch_github_code_Inr:
  "fst (fetch_github_code E url token) = Inr code \<Longrightarrow>
   47 \<in> set url \<and> fst (fetch_body E token (repo_full_name url)) = Inr code"
proof -
  assume a: "fst (fetch_github_code E url token) = Inr code"
  have s: "47 \<in> set url"
  proof (rule ccontr)
    assume "47 \<notin> set url"
    with a show False by (simp add: fetch_github_code_no_slash)
  qed
  with a show ?thesis
    by (cases "fst (fetch_body E token (repo_full_name url))")
       (simp_all add: fetch_github_code_slash)
qed

text \<open>
  C4. When the repository is reached and the traversal completes with an empty text, as
  it does when no file of the tree is accepted by the Path Filter, the fetcher raises
  \<open>HTTPException\<close> 404 with its own detail; it never returns an empty text.
\<close>

theorem empty_result_is_404:
  assumes "47 \<in> set url"
      and "get_repo E token (repo_full_name url) = Inr (Inr contents)"
      and "fst (fetch_loop E contents []) = Inr code"
  shows "(code = []
          \<or> (\<forall>(path, c) \<in> set (all_files contents). \<not> should_process_path (unicode_lower E) path)
          \<longrightarrow> fst (fetch_github_code E url token)
                = Inl (HTTPException 404 (py ''No supported files found in the repository.'')))
       \<and> fst (fetch_github_code E url token) \<noteq> Inr []"
proof -
  have e: "code = [] \<Longrightarrow> fst (fetch_github_code E url token)
      = Inl (HTTPException 404 (py ''No supported files found in the repository.''))"
    using assms
    by (cases "fetch_loop E contents []")
       (simp add: fetch_github_code_slash fetch_body_def)
  have n: "\<forall>(path, c) \<in> set (all_files contents). \<not> should_process_path (unicode_lower E) path
      \<Longrightarrow> code = []"
    using fetch_loop_nothing_accepted [OF _ assms(3)] by simp
  have "fst (fetch_github_code E url token) \<noteq> Inr []"
    using fetch_github_code_Inr fetch_body_Inr by blast
  with e n show ?thesis by blast
qed

theorem empty_result_is_404_witness:
  "47 \<in> set (py ''octocat/docs'')
   \<and> get_repo (demo_env demo_analysis_text demo_questions_text) (py ''token'')
        (repo_full_name (py ''octocat/docs''))
       = Inr (Inr [File (py ''README.md'') (Inr (py ''eCA9IDI=''))])
   \<and> fst (fetch_loop (demo_env demo_analysis_text demo_questions_text)
        [File (py ''README.md'') (Inr (py ''eCA9IDI=''))] []) = Inr []
   \<and> list_all (\<lambda>(path, c).
        \<not> should_process_path (unicode_lower (demo_env demo_analysis_text demo_questions_text)) path)
        (all_files [File (py ''README.md'') (Inr (py ''eCA9IDI=''))])
   \<and> fst (fetch_github_code (demo_env demo_analysis_text demo_questions_text)
        (py ''octocat/docs'') (py ''token''))
       = Inl (HTTPException 404 (py ''No supported files found in the repository.''))"
proof -
  let ?E = "demo_env demo_analysis_text demo_questions_text"
  have r: "\<not> should_process_path ul_none (py ''README.md'')"
    by (simp add: path_eval)
  have u: "unicode_lower ?E = ul_none"
    by (simp add: demo_env_def)
  have a: "47 \<in> set (py ''octocat/docs'')"
    by (simp add: demo_slashes)
  have b: "get_repo ?E (py ''token'') (repo_full_name (py ''octocat/docs''))
       = Inr (Inr [File (py ''README.md'') (Inr (py ''eCA9IDI=''))])"
    by (simp add: demo_full_names) (simp add: demo_env_def py_def)
  have c: "fst (fetch_loop ?E [File (py ''README.md'') (Inr (py ''eCA9IDI=''))] []) = Inr []"
    using r by (simp add: u)
  have d: "\<forall>(path, c) \<in> set (all_files [File (py ''README.md'') (Inr (py ''eCA9IDI=''))]).
        \<not> should_process_path (unicode_lower ?E) path"
    using r by (simp add: u all_files_simps)
  from a b c d empty_result_is_404 [OF a b c] show ?thesis
    by (simp add: list_all_iff)
qed

section \<open>The segments of the fetched text\<close>

lemma lower_slash: "lower ul (d @ 47 # r) = lower ul d @ 47 # lower ul r"
  by (simp add: lower_def lower_cp_def)

lemma segments_below:
  assumes "prefix (d @ [47]) p"
  shows "set (split 47 (lower ul d)) \<subseteq> set (split 47 (lower ul p))"
proof -
  from assms obtain r where "p = d @ 47 # r"
    by (auto simp: prefix_def)
  then show ?thesis
    by (simp add: lower_slash split_append_sep)
qed

lemma forbidden_below:
  "has_forbidden_segment ul d \<Longrightarrow> prefix (d @ [47]) p \<Longrightarrow> \<not> should_process_path ul p"
  using segments_below [of d p ul]
  by (auto simp: has_forbidden_segment_def should_process_path_def list_ex_iff)

lemma files_below:
  "paths_nested n \<Longrightarrow> (p, c) \<in> set (files n) \<Longrightarrow>
   n = File p c \<or> prefix (entry_path n @ [47]) p"
proof (induction n)
  case (File path c')
  then show ?case by simp
next
  case (Dir path children)
  from Dir.prems(2) obtain ch where ch: "ch \<in> set children" "(p, c) \<in> set (files ch)"
    by auto
  with Dir.prems(1) have n: "prefix (path @ [47]) (entry_path ch)" "paths_nested ch"
    by auto
  from Dir.IH [OF ch(1) n(2) ch(2)] have "prefix (path @ [47]) p"
  proof
    assume "ch = File p c"
    with n(1) show ?thesis by simp
  next
    assume "prefix (entry_path ch @ [47]) p"
    with n(1) show ?thesis
      by (meson prefix_order.order_trans prefix_prefix prefix_order.order_refl append_prefixD)
  qed
  then show ?case by simp
next
  case (DirRaises path e)
  then show ?case by simp
qed

lemma accepted_segments_simps:
  "accepted_segments E [] = []"
  "accepted_segments E (File path content # contents) =
     (if should_process_path (unicode_lower E) path
      then (case decoded E content of Some file_data \<Rightarrow> [(path, file_data)] | None \<Rightarrow> [])
      else []) @ accepted_segments E contents"
  "accepted_segments E (Dir path children # contents) =
     accepted_segments E children @ accepted_segments E contents"
  "accepted_segments E (DirRaises path e # contents) = accepted_segments E contents"
  "accepted_segments E (xs @ ys) = accepted_segments E xs @ accepted_segments E ys"
  by (simp_all add: accepted_segments_def all_files_simps)

lemma accepted_segments_pruned:
  assumes "paths_nested (Dir path children)" and "has_forbidden_segment (unicode_lower E) path"
  shows "accepted_segments E children = []"
proof -
  have "\<not> should_process_path (unicode_lower E) p" if "(p, c) \<in> set (all_files children)" for p c
  proof -
    from that have "(p, c) \<in> set (files (Dir path children))"
      by (simp add: all_files_def)
    from files_below [OF assms(1) this] have "prefix (path @ [47]) p" by simp
    with assms(2) show ?thesis by (rule forbidden_below)
  qed
  then show ?thesis
    by (auto simp: accepted_segments_def)
qed

lemma fetch_loop_segments:
  "\<forall>n \<in> set contents. paths_nested n \<and> pruned_by_segment (unicode_lower E) n \<Longrightarrow>
   fst (fetch_loop E contents code) = Inr code' \<Longrightarrow>
   \<exists>segs. code' = code @ concat (map (\<lambda>(path, file_data). file_segment path file_data) segs)
        \<and> mset segs = mset (accepted_segments E contents)"
proof (induction E contents code arbitrary: code' rule: fetch_loop.induct)
  case (1 E code_content)
  then show ?case
    by (simp add: accepted_segments_simps)
next
  case (2 E path children contents code_content)
  show ?case
  proof (cases "dir_forbidden (unicode_lower E) path")
    case True
    with "2.prems"(1) have "has_forbidden_segment (unicode_lower E) path" "paths_nested (Dir path children)"
      by simp_all
    then have e: "accepted_segments E children = []"
      using accepted_segments_pruned by blast
    from True "2.prems" have "\<exists>segs. code' = code_content @ concat (map (\<lambda>(path, file_data). file_segment path file_data) segs)
        \<and> mset segs = mset (accepted_segments E contents)"
      using "2.IH"(2) by simp
    with e show ?thesis
      by (simp add: accepted_segments_simps)
  next
    case False
    from "2.prems"(1) have w: "\<forall>n \<in> set (contents @ children).
        paths_nested n \<and> pruned_by_segment (unicode_lower E) n"
      by auto
    from False "2.prems"(2) have "fst (fetch_loop E (contents @ children) code_content) = Inr code'"
      by simp
    from "2.IH"(1) [OF False w this] show ?thesis
      by (simp add: accepted_segments_simps add.commute)
  qed
next
  case (3 E path e contents code_content)
  then show ?case
    by (cases "dir_forbidden (unicode_lower E) path") (simp_all add: accepted_segments_simps)
next
  case (4 E path content contents code_content)
  from "4.prems"(1) have w: "\<forall>n \<in> set contents.
      paths_nested n \<and> pruned_by_segment (unicode_lower E) n"
    by simp
  show ?case
  proof (cases "should_process_path (unicode_lower E) path")
    case False
    with "4.prems"(2) have "fst (fetch_loop E contents code_content) = Inr code'"
      by simp
    from "4.IH"(4) [OF False w this] False show ?thesis
      by (simp add: accepted_segments_simps)
  next
    case True
    show ?thesis
    proof (cases content)
      case (Inl e)
      with True "4.prems"(2) have "fst (fetch_loop E contents code_content) = Inr code'"
        by simp
      from "4.IH"(1) [OF True Inl w this] True Inl show ?thesis
        by (simp add: accepted_segments_simps decoded_def)
    next
      case (Inr c)
      show ?thesis
      proof (cases "decode_content E c")
        case (Inl m)
        with True Inr "4.prems"(2) have "fst (fetch_loop E contents code_content) = Inr code'"
          by simp
        from "4.IH"(2) [OF True Inr Inl w this] True Inr Inl show ?thesis
          by (simp add: accepted_segments_simps decoded_def)
      next
        case file_data: (Inr file_data)
        with True Inr "4.prems"(2) have
          "fst (fetch_loop E contents (code_content @ file_segment path file_data)) = Inr code'"
          by simp
        from "4.IH"(3) [OF True Inr file_data w this] obtain segs where
          s: "code' = (code_content @ file_segment path file_data)
                @ concat (map (\<lambda>(path, file_data). file_segment path file_data) segs)"
          and m: "mset segs = mset (accepted_segments E contents)"
          by blast
        from s m True Inr file_data have
          "code' = code_content
              @ concat (map (\<lambda>(path, file_data). file_segment path file_data)
                  ((path, file_data) # segs))
           \<and> mset ((path, file_data) # segs)
               = mset (accepted_segments E (File path content # contents))"
          by (simp add: accepted_segments_simps decoded_def)
        then show ?thesis by blast
      qed
    qed
  qed
qed

lemma demo_unicode_lower: "unicode_lower (demo_env a q) = ul_none"
  by (simp add: demo_env_def)

lemma demo_accepted:
  "accepted_segments (demo_env a q) demo_contents
     = [(py ''main.py'', py ''print(1)''), (py ''src/util.py'', py ''x = 2'')]"
proof -
  have p: "should_process_path ul_none (py ''main.py'')"
    "should_process_path ul_none (py ''src/util.py'')"
    "should_process_path ul_none (py ''src/logo.py'')"
    "\<not> should_process_path ul_none (py ''src/notes.txt'')"
    "\<not> should_process_path ul_none (py ''node_modules/index.js'')"
    "\<not> should_process_path ul_none (py ''README.md'')"
    by (simp_all add: path_eval)
  have d: "decoded (demo_env a q) (Inr (py ''cHJpbnQoMSk='')) = Some (py ''print(1)'')"
    "decoded (demo_env a q) (Inr (py ''eCA9IDI='')) = Some (py ''x = 2'')"
    "decoded (demo_env a q) (Inr (py ''/w=='')) = None"
    by (simp_all add: decoded_def demo_env_def demo_decode_def py_def)
  show ?thesis
    by (simp add: demo_contents_def accepted_segments_simps demo_unicode_lower p d)
qed

lemma demo_tree_nested:
  "\<forall>n \<in> set demo_contents. paths_nested n \<and> pruned_by_segment ul_none n"
proof -
  have "\<not> dir_forbidden ul_none (py ''src'')"
    by (simp add: dir_forbidden_def str_contains_def sublist_code path_eval)
  moreover have "has_forbidden_segment ul_none (py ''node_modules'')"
    by (simp add: has_forbidden_segment_def path_eval)
  moreover have "\<forall>n \<in> set demo_contents. paths_nested n"
    by (simp add: demo_contents_def py_def)
  ultimately show ?thesis
    by (simp add: demo_contents_def)
qed

text \<open>
  A directory whose name merely contains a deny-listed name (\<open>layout\<close> contains \<open>out\<close>) is
  not listed, although the Path Filter accepts the files below it.
\<close>

lemma layout_directory_not_listed:
  "should_process_path ul_none (py ''layout/app.py'')
   \<and> fetch_loop (demo_env a q)
        [Dir (py ''layout'') [File (py ''layout/app.py'') (Inr (py ''cHJpbnQoMSk=''))]] []
       = (Inr [], [])"
proof -
  have "should_process_path ul_none (py ''layout/app.py'')"
    by (simp add: path_eval)
  moreover have "dir_forbidden ul_none (py ''layout'')"
    by (simp add: dir_forbidden_def str_contains_def sublist_code path_eval)
  ultimately show ?thesis
    by (simp add: demo_unicode_lower)
qed

text \<open>
  C1 (as stated). The output has one marker for each file accepted by the Path Filter:
  refuted by a tree with three accepted files, one of which does not decode; the output
  has two markers.
\<close>

theorem fetch_markers_counterexample:
  "length (filter (should_process_path ul_none) (map fst (all_files demo_contents))) = 3
   \<and> fst (fetch_github_code (demo_env demo_analysis_text demo_questions_text)
          (py ''https://github.com/octocat/demo'') (py ''token'')) = Inr demo_code
   \<and> occurrences (py ''// File: '') demo_code = 2"
proof -
  have p: "should_process_path ul_none (py ''main.py'')"
    "should_process_path ul_none (py ''src/util.py'')"
    "should_process_path ul_none (py ''src/logo.py'')"
    "\<not> should_process_path ul_none (py ''src/notes.txt'')"
    "\<not> should_process_path ul_none (py ''node_modules/index.js'')"
    "\<not> should_process_path ul_none (py ''README.md'')"
    by (simp_all add: path_eval)
  have 1: "length (filter (should_process_path ul_none) (map fst (all_files demo_contents))) = 3"
    by (simp add: demo_contents_def all_files_simps p)
  have 2: "occurrences (py ''// File: '') demo_code = 2"
    by (simp add: demo_code_def py_def)
  from 1 2 show ?thesis
    by (simp add: demo_fetch)
qed

text \<open>
  C1 (amended). For every repository tree in which no directory path contains a
  deny-listed name except as a whole segment, a fetch that succeeds returns the
  concatenation of one \<open>// File: <path>\<close> segment for each file that the Path Filter accepts
  and whose content is read and decodes, and of nothing else: no segment for a path that
  is not accepted, none for a file that does not decode.
\<close>

theorem fetch_markers_accepted_decodable:
  assumes "get_repo E token (repo_full_name url) = Inr (Inr contents)"
      and "\<forall>n \<in> set contents. paths_nested n \<and> pruned_by_segment (unicode_lower E) n"
      and "fst (fetch_github_code E url token) = Inr out"
  shows "\<exists>segs. out = concat (map (\<lambda>(path, file_data). file_segment path file_data) segs)
           \<and> mset segs = mset (accepted_segments E contents)"
proof -
  from fetch_github_code_Inr [OF assms(3)]
  have "fst (fetch_body E token (repo_full_name url)) = Inr out" by simp
  from fetch_body_Inr [OF this] assms(1) have "fst (fetch_loop E contents []) = Inr out"
    by auto
  from fetch_loop_segments [OF assms(2) this] show ?thesis by simp
qed

theorem fetch_markers_accepted_decodable_witness:
  "get_repo (demo_env demo_analysis_text demo_questions_text) (py ''token'')
       (repo_full_name (py ''https://github.com/octocat/demo'')) = Inr (Inr demo_contents)
   \<and> list_all (\<lambda>n. paths_nested n
         \<and> pruned_by_segment (unicode_lower (demo_env demo_analysis_text demo_questions_text)) n)
        demo_contents
   \<and> fst (fetch_github_code (demo_env demo_analysis_text demo_questions_text)
          (py ''https://github.com/octocat/demo'') (py ''token'')) = Inr demo_code
   \<and> accepted_segments (demo_env demo_analysis_text demo_questions_text) demo_contents
       = [(py ''main.py'', py ''print(1)''), (py ''src/util.py'', py ''x = 2'')]
   \<and> (\<exists>segs. demo_code = concat (map (\<lambda>(path, file_data). file_segment path file_data) segs)
         \<and> mset segs = mset [(py ''main.py'', py ''print(1)''), (py ''src/util.py'', py ''x = 2'')])"
proof -
  let ?E = "demo_env demo_analysis_text demo_questions_text"
  have a: "get_repo ?E (py ''token'') (repo_full_name (py ''https://github.com/octocat/demo''))
      = Inr (Inr demo_contents)"
    by (simp add: demo_full_names) (simp add: demo_env_def)
  have b: "\<forall>n \<in> set demo_contents. paths_nested n \<and> pruned_by_segment (unicode_lower ?E) n"
    using demo_tree_nested by (simp add: demo_unicode_lower)
  have c: "fst (fetch_github_code ?E (py ''https://github.com/octocat/demo'') (py ''token''))
      = Inr demo_code"
    by (simp add: demo_fetch)
  from a b c fetch_markers_accepted_decodable [OF a b c] show ?thesis
    by (simp add: demo_accepted list_all_iff)
qed

section \<open>Errors swallowed during the traversal\<close>

text \<open>
  C8. A file whose content does not decode is logged and skipped, and the claim says that
  this is the only error swallowed. The code swallows more: the inner \<open>except Exception\<close>
  also catches the \<open>GithubException\<close> that the hosting service raises when the content of a
  file is read. With a rate limit reached at the second file, the warning is printed as a
  decoding error and the fetch succeeds with the first file alone, although the fetcher's
  own \<open>except GithubException\<close> clause maps this exception to status 500.
\<close>

theorem content_error_swallowed:
  "fetch_github_code (demo_env demo_analysis_text demo_questions_text)
       (py ''octocat/limited'') (py ''token'')
     = (Inr (file_segment (py ''main.py'') (py ''print(1)'')),
        [GetRepo (py ''octocat/limited''), GetContents [],
         Print (decode_warning (py ''app.py'') (py ''403 rate limit exceeded''))])
   \<and> except_GithubException (Other (GithubException 403 (py ''403 rate limit exceeded'')))
     = HTTPException 500 (py ''GitHub API error: '' @ py ''403 rate limit exceeded'')"
proof -
  let ?E = "demo_env demo_analysis_text demo_questions_text"
  have p: "should_process_path ul_none (py ''main.py'')"
    "should_process_path ul_none (py ''app.py'')"
    by (simp_all add: path_eval)
  have d: "decode_content ?E (py ''cHJpbnQoMSk='') = Inr (py ''print(1)'')"
    by (simp add: demo_env_def demo_decode_def)
  have l: "fetch_loop ?E demo_limited []
      = (Inr (file_segment (py ''main.py'') (py ''print(1)'')),
         [Print (decode_warning (py ''app.py'') (py ''403 rate limit exceeded''))])"
    by (simp add: demo_limited_def demo_unicode_lower p d)
  have n: "repo_full_name (py ''octocat/limited'') = py ''octocat/limited''"
    "47 \<in> set (py ''octocat/limited'')"
    by (simp_all add: repo_full_name_def py_def)
  have g: "get_repo ?E (py ''token'') (py ''octocat/limited'') = Inr (Inr demo_limited)"
    by (simp add: demo_env_def py_def)
  have s: "file_segment (py ''main.py'') (py ''print(1)'') \<noteq> []"
    by (simp add: file_segment_def py_def)
  have "fetch_body ?E (py ''token'') (py ''octocat/limited'')
      = (Inr (file_segment (py ''main.py'') (py ''print(1)'')),
        [GetRepo (py ''octocat/limited''), GetContents [],
         Print (decode_warning (py ''app.py'') (py ''403 rate limit exceeded''))])"
    by (simp add: fetch_body_def g l s)
  then show ?thesis
    by (simp add: fetch_github_code_slash n)
qed

end
